theory Spec2Isabelle
  imports Complex_Main
begin

section \<open>Data model of \<open>src/math/matrix4.ts\<close>\<close>

text \<open>
  A JavaScript \<open>number\<close> is modelled as a real: arithmetic is exact, there is no NaN,
  no infinity and no rounding. Statements that only move values around do not depend on
  this choice; statements about products, quotients and roots are statements about the
  exact arithmetic of the formulas in the source. The test \<open>det === 0\<close> of \<open>invert\<close>
  does depend on it, and is modelled over doubles in a section of its own.
\<close>

type_synonym number = real

text \<open>
  \<open>Matrix4\<close> instances are objects: two variables may denote the same instance, and the
  optional \<open>result\<close> parameters make that visible. An instance is a reference into a
  heap that holds, for each reference, the array stored in the private field \<open>_val\<close>.
  \<open>nxt\<close> is the next reference that \<open>new Matrix4()\<close> hands out.
\<close>

type_synonym ref = nat

record heap =
  cells :: "ref \<Rightarrow> number list"
  nxt :: ref

text \<open>
  An allocated instance: its reference was handed out by the constructor, and its buffer has
  the 16 entries the constructor gave it (no method of the class changes the length).
\<close>

definition live :: "heap \<Rightarrow> ref \<Rightarrow> bool" where
  "live h a \<longleftrightarrow> a < nxt h \<and> length (cells h a) = 16"

text \<open>
  The two \<open>throw new Error(...)\<close> of the class, named as the specification names them:
  \<open>InvalidArgument\<close> is the error of \<open>fromArray\<close>, \<open>SingularMatrix\<close> the error of
  \<open>invert\<close>.
\<close>

datatype error = InvalidArgument | SingularMatrix

record Matrix4Json =
  m00 :: number
  m10 :: number
  m20 :: number
  m30 :: number
  m01 :: number
  m11 :: number
  m21 :: number
  m31 :: number
  m02 :: number
  m12 :: number
  m22 :: number
  m32 :: number
  m03 :: number
  m13 :: number
  m23 :: number
  m33 :: number

record Vector3 =
  vx :: number
  vy :: number
  vz :: number

record Quaternion =
  qx :: number
  qy :: number
  qz :: number
  qw :: number

section \<open>Operations\<close>

text \<open>\<open>constructor()\<close>: a new instance whose buffer is the identity matrix.\<close>

definition new_Matrix4 :: "heap \<Rightarrow> heap \<times> ref" where
  "new_Matrix4 h =
     (let this = nxt h in
      (h\<lparr>cells := (cells h)(this :=
            [1, 0, 0, 0,
             0, 1, 0, 0,
             0, 0, 1, 0,
             0, 0, 0, 1]),
          nxt := Suc this\<rparr>, this))"

text \<open>\<open>serialise()\<close>\<close>

definition serialise :: "heap \<Rightarrow> ref \<Rightarrow> Matrix4Json" where
  "serialise h this =
     (let m = cells h this in
      \<lparr>m00 = m ! 0, m10 = m ! 1, m20 = m ! 2, m30 = m ! 3,
       m01 = m ! 4, m11 = m ! 5, m21 = m ! 6, m31 = m ! 7,
       m02 = m ! 8, m12 = m ! 9, m22 = m ! 10, m32 = m ! 11,
       m03 = m ! 12, m13 = m ! 13, m23 = m ! 14, m33 = m ! 15\<rparr>)"

text \<open>
  \<open>set(m00, m01, m02, m03, m10, ...)\<close>: the parameters come row by row, the buffer is
  written column by column. The parameters are named \<open>p\<close>\<^emph>\<open>rc\<close> here.
\<close>

definition set_values ::
  "heap \<Rightarrow> ref \<Rightarrow> number \<Rightarrow> number \<Rightarrow> number \<Rightarrow> number \<Rightarrow> number \<Rightarrow> number \<Rightarrow> number \<Rightarrow> number
     \<Rightarrow> number \<Rightarrow> number \<Rightarrow> number \<Rightarrow> number \<Rightarrow> number \<Rightarrow> number \<Rightarrow> number \<Rightarrow> number \<Rightarrow> heap \<times> ref" where
  "set_values h this p00 p01 p02 p03 p10 p11 p12 p13 p20 p21 p22 p23 p30 p31 p32 p33 =
     (let m = cells h this;
          m = m[0 := p00];
          m = m[1 := p10];
          m = m[2 := p20];
          m = m[3 := p30];
          m = m[4 := p01];
          m = m[5 := p11];
          m = m[6 := p21];
          m = m[7 := p31];
          m = m[8 := p02];
          m = m[9 := p12];
          m = m[10 := p22];
          m = m[11 := p32];
          m = m[12 := p03];
          m = m[13 := p13];
          m = m[14 := p23];
          m = m[15 := p33]
      in (h\<lparr>cells := (cells h)(this := m)\<rparr>, this))"

text \<open>\<open>deserialise(values)\<close>, the instance method.\<close>

definition deserialise :: "heap \<Rightarrow> ref \<Rightarrow> Matrix4Json \<Rightarrow> heap \<times> ref" where
  "deserialise h this values =
     set_values h this
       (m00 values) (m01 values) (m02 values) (m03 values)
       (m10 values) (m11 values) (m12 values) (m13 values)
       (m20 values) (m21 values) (m22 values) (m23 values)
       (m30 values) (m31 values) (m32 values) (m33 values)"

text \<open>\<open>Matrix4.deserialise(values)\<close>, the static factory.\<close>

definition deserialise_static :: "heap \<Rightarrow> Matrix4Json \<Rightarrow> heap \<times> ref" where
  "deserialise_static h values =
     (let (h1, fresh) = new_Matrix4 h in deserialise h1 fresh values)"

text \<open>\<open>scale(scale, optresult)\<close>; the factor is named \<open>sc\<close> here.\<close>

definition scale :: "heap \<Rightarrow> ref \<Rightarrow> number \<Rightarrow> ref option \<Rightarrow> heap \<times> ref" where
  "scale h this sc optresult =
     (let result = (case optresult of Some r \<Rightarrow> r | None \<Rightarrow> this);
          m = cells h result;
          m = m[0 := m ! 0 * sc];
          m = m[1 := m ! 1 * sc];
          m = m[2 := m ! 2 * sc];
          m = m[3 := m ! 3 * sc];
          m = m[4 := m ! 4 * sc];
          m = m[5 := m ! 5 * sc];
          m = m[6 := m ! 6 * sc];
          m = m[7 := m ! 7 * sc];
          m = m[8 := m ! 8 * sc];
          m = m[9 := m ! 9 * sc];
          m = m[10 := m ! 10 * sc];
          m = m[11 := m ! 11 * sc];
          m = m[12 := m ! 12 * sc];
          m = m[13 := m ! 13 * sc];
          m = m[14 := m ! 14 * sc];
          m = m[15 := m ! 15 * sc]
      in (h\<lparr>cells := (cells h)(result := m)\<rparr>, result))"

text \<open>
  \<open>fromArray(values)\<close>. The argument is an array of the caller, given by its contents.
  The length check comes first, so on the error no entry has been written; the heap is
  returned in both cases so that this can be stated.
\<close>

definition fromArray :: "heap \<Rightarrow> ref \<Rightarrow> number list \<Rightarrow> heap \<times> (error + ref)" where
  "fromArray h this values =
     (if length values < 16 then (h, Inl InvalidArgument)
      else
        let m = cells h this;
            m = m[0 := values ! 0];
            m = m[1 := values ! 1];
            m = m[2 := values ! 2];
            m = m[3 := values ! 3];
            m = m[4 := values ! 4];
            m = m[5 := values ! 5];
            m = m[6 := values ! 6];
            m = m[7 := values ! 7];
            m = m[8 := values ! 8];
            m = m[9 := values ! 9];
            m = m[10 := values ! 10];
            m = m[11 := values ! 11];
            m = m[12 := values ! 12];
            m = m[13 := values ! 13];
            m = m[14 := values ! 14];
            m = m[15 := values ! 15]
        in (h\<lparr>cells := (cells h)(this := m)\<rparr>, Inr this))"

text \<open>\<open>setToProjection(near, far, fov, aspect)\<close>\<close>

definition setToProjection ::
  "heap \<Rightarrow> ref \<Rightarrow> number \<Rightarrow> number \<Rightarrow> number \<Rightarrow> number \<Rightarrow> heap \<times> ref" where
  "setToProjection h this near far fov aspect =
     (let fd = 1 / tan ((fov * (pi / 180)) / 2);
          a1 = (far + near) / (near - far);
          a2 = (2 * far * near) / (near - far);
          m = cells h this;
          m = m[0 := fd / aspect];
          m = m[1 := 0];
          m = m[2 := 0];
          m = m[3 := 0];
          m = m[4 := 0];
          m = m[5 := fd];
          m = m[6 := 0];
          m = m[7 := 0];
          m = m[8 := 0];
          m = m[9 := 0];
          m = m[10 := a1];
          m = m[11 := - 1];
          m = m[12 := 0];
          m = m[13 := 0];
          m = m[14 := a2];
          m = m[15 := 0]
      in (h\<lparr>cells := (cells h)(this := m)\<rparr>, this))"

text \<open>
  \<open>composePosRotSca(position, rotation, scale)\<close>. The three arguments are only read; they
  are given by their components. The scale is named \<open>sca\<close> here.
\<close>

definition composePosRotSca :: "heap \<Rightarrow> ref \<Rightarrow> Vector3 \<Rightarrow> Quaternion \<Rightarrow> Vector3 \<Rightarrow> heap \<times> ref" where
  "composePosRotSca h this position rotation sca =
     (let xs = qx rotation * 2; ys = qy rotation * 2; zs = qz rotation * 2;
          wx = qw rotation * xs; wy = qw rotation * ys; wz = qw rotation * zs;
          xx = qx rotation * xs; xy = qx rotation * ys; xz = qx rotation * zs;
          yy = qy rotation * ys; yz = qy rotation * zs; zz = qz rotation * zs;
          m = cells h this;
          m = m[0 := vx sca * (1 - (yy + zz))];
          m = m[4 := vy sca * (xy - wz)];
          m = m[8 := vz sca * (xz + wy)];
          m = m[12 := vx position];
          m = m[1 := vx sca * (xy + wz)];
          m = m[5 := vy sca * (1 - (xx + zz))];
          m = m[9 := vz sca * (yz - wx)];
          m = m[13 := vy position];
          m = m[2 := vx sca * (xz - wy)];
          m = m[6 := vy sca * (yz + wx)];
          m = m[10 := vz sca * (1 - (xx + yy))];
          m = m[14 := vz position];
          m = m[3 := 0];
          m = m[7 := 0];
          m = m[11 := 0];
          m = m[15 := 1]
      in (h\<lparr>cells := (cells h)(this := m)\<rparr>, this))"

text \<open>
  Modelled from the spec: \<open>Vector3.len\<close>, whose file \<open>vector3.ts\<close> is not among the
  sources. The specification gives \<open>len(x,y,z) = sqrt(x\<^sup>2+y\<^sup>2+z\<^sup>2)\<close>.
\<close>

definition Vector3_len :: "number \<Rightarrow> number \<Rightarrow> number \<Rightarrow> number" where
  "Vector3_len a b c = sqrt (a * a + b * b + c * c)"

text \<open>
  \<open>decomposePosRotSca(position, rotation, scale)\<close>. The three arguments are out-parameters
  that the method overwrites with \<open>set\<close> (of \<open>vector3.ts\<close> and \<open>quaternion.ts\<close>, which
  store the given components); the model returns the components written, in the order
  position, rotation, scale. The heap is only read.
\<close>

definition decomposePosRotSca :: "heap \<Rightarrow> ref \<Rightarrow> Vector3 \<times> Quaternion \<times> Vector3" where
  "decomposePosRotSca h this =
     (let val = cells h this;
          xx = val ! 0;
          xy = val ! 1;
          xz = val ! 2;
          yx = val ! 4;
          yy = val ! 5;
          yz = val ! 6;
          zx = val ! 8;
          zy = val ! 9;
          zz = val ! 10;
          sx = Vector3_len xx xy xz;
          sy = Vector3_len yx yy yz;
          sz = Vector3_len zx zy zz;
          lx = 1 / sx;
          ly = 1 / sy;
          lz = 1 / sz;
          sxx = xx * lx;
          sxy = xy * lx;
          sxz = xz * lx;
          syx = yx * ly;
          syy = yy * ly;
          syz = yz * ly;
          szx = zx * lz;
          szy = zy * lz;
          szz = zz * lz;
          t = sxx + syy + szz;
          rotation =
            (if t \<ge> 0 then
               let s = sqrt (t + 1);
                   w = 0.5 * s;
                   sd = 0.5 / s;
                   x = (szy - syz) * sd;
                   y = (sxz - szx) * sd;
                   z = (syx - sxy) * sd
               in \<lparr>qx = x, qy = y, qz = z, qw = w\<rparr>
             else if sxx > syy \<and> sxx > szz then
               let s = sqrt (1 + sxx - syy - szz);
                   x = s * 0.5;
                   sd = 0.5 / s;
                   y = (syx + sxy) * sd;
                   z = (sxz + szx) * sd;
                   w = (szy - syz) * sd
               in \<lparr>qx = x, qy = y, qz = z, qw = w\<rparr>
             else if syy > szz then
               let s = sqrt (1 + syy - sxx - szz);
                   y = s * 0.5;
                   sd = 0.5 / s;
                   x = (syx + sxy) * sd;
                   z = (szy + syz) * sd;
                   w = (sxz - szx) * sd
               in \<lparr>qx = x, qy = y, qz = z, qw = w\<rparr>
             else
               let s = sqrt (1 + szz - sxx - syy);
                   z = s * 0.5;
                   sd = 0.5 / s;
                   x = (sxz + szx) * sd;
                   y = (szy + syz) * sd;
                   w = (syx - sxy) * sd
               in \<lparr>qx = x, qy = y, qz = z, qw = w\<rparr>)
      in (\<lparr>vx = val ! 12, vy = val ! 13, vz = val ! 14\<rparr>,
          rotation,
          \<lparr>vx = sx, vy = sy, vz = sz\<rparr>))"

text \<open>
  The static \<open>Matrix4.multiply(a, b, result)\<close>: the 32 entries of the operands are read
  into local constants, then the 16 entries of \<open>result\<close> are written.
\<close>

definition multiply_static :: "heap \<Rightarrow> ref \<Rightarrow> ref \<Rightarrow> ref \<Rightarrow> heap \<times> ref" where
  "multiply_static h a b result =
     (let av = cells h a;
          bv = cells h b;
          r = cells h result;
          a11 = av ! 0; a12 = av ! 4; a13 = av ! 8; a14 = av ! 12;
          a21 = av ! 1; a22 = av ! 5; a23 = av ! 9; a24 = av ! 13;
          a31 = av ! 2; a32 = av ! 6; a33 = av ! 10; a34 = av ! 14;
          a41 = av ! 3; a42 = av ! 7; a43 = av ! 11; a44 = av ! 15;
          b11 = bv ! 0; b12 = bv ! 4; b13 = bv ! 8; b14 = bv ! 12;
          b21 = bv ! 1; b22 = bv ! 5; b23 = bv ! 9; b24 = bv ! 13;
          b31 = bv ! 2; b32 = bv ! 6; b33 = bv ! 10; b34 = bv ! 14;
          b41 = bv ! 3; b42 = bv ! 7; b43 = bv ! 11; b44 = bv ! 15;
          r = r[0 := a11 * b11 + a12 * b21 + a13 * b31 + a14 * b41];
          r = r[4 := a11 * b12 + a12 * b22 + a13 * b32 + a14 * b42];
          r = r[8 := a11 * b13 + a12 * b23 + a13 * b33 + a14 * b43];
          r = r[12 := a11 * b14 + a12 * b24 + a13 * b34 + a14 * b44];
          r = r[1 := a21 * b11 + a22 * b21 + a23 * b31 + a24 * b41];
          r = r[5 := a21 * b12 + a22 * b22 + a23 * b32 + a24 * b42];
          r = r[9 := a21 * b13 + a22 * b23 + a23 * b33 + a24 * b43];
          r = r[13 := a21 * b14 + a22 * b24 + a23 * b34 + a24 * b44];
          r = r[2 := a31 * b11 + a32 * b21 + a33 * b31 + a34 * b41];
          r = r[6 := a31 * b12 + a32 * b22 + a33 * b32 + a34 * b42];
          r = r[10 := a31 * b13 + a32 * b23 + a33 * b33 + a34 * b43];
          r = r[14 := a31 * b14 + a32 * b24 + a33 * b34 + a34 * b44];
          r = r[3 := a41 * b11 + a42 * b21 + a43 * b31 + a44 * b41];
          r = r[7 := a41 * b12 + a42 * b22 + a43 * b32 + a44 * b42];
          r = r[11 := a41 * b13 + a42 * b23 + a43 * b33 + a44 * b43];
          r = r[15 := a41 * b14 + a42 * b24 + a43 * b34 + a44 * b44]
      in (h\<lparr>cells := (cells h)(result := r)\<rparr>, result))"

text \<open>\<open>multiply(matrix, optresult)\<close> and \<open>preMultiply(matrix, optresult)\<close>\<close>

definition multiply :: "heap \<Rightarrow> ref \<Rightarrow> ref \<Rightarrow> ref option \<Rightarrow> heap \<times> ref" where
  "multiply h this matrix optresult =
     (let result = (case optresult of Some r \<Rightarrow> r | None \<Rightarrow> this)
      in multiply_static h this matrix result)"

definition preMultiply :: "heap \<Rightarrow> ref \<Rightarrow> ref \<Rightarrow> ref option \<Rightarrow> heap \<times> ref" where
  "preMultiply h this matrix optresult =
     (let result = (case optresult of Some r \<Rightarrow> r | None \<Rightarrow> this)
      in multiply_static h matrix this result)"

text \<open>\<open>clone()\<close>: \<open>new Matrix4().fromArray(this._val)\<close>\<close>

definition clone :: "heap \<Rightarrow> ref \<Rightarrow> heap \<times> (error + ref)" where
  "clone h this =
     (let (h1, fresh) = new_Matrix4 h in fromArray h1 fresh (cells h1 this))"

text \<open>\<open>identity()\<close>\<close>

definition identity :: "heap \<Rightarrow> ref \<Rightarrow> heap \<times> ref" where
  "identity h this =
     (let (h1, r) = set_values h this
                      1 0 0 0
                      0 1 0 0
                      0 0 1 0
                      0 0 0 1
      in (h1, this))"

text \<open>
  The getter \<open>determinant\<close>, in exact arithmetic. Which inputs make it zero in the
  arithmetic of the program is the subject of \<open>determinant_d\<close> below.
\<close>

definition determinant :: "heap \<Rightarrow> ref \<Rightarrow> number" where
  "determinant h this =
     (let m = cells h this in
         m ! 3 * m ! 6 * m ! 9 * m ! 12 - m ! 2 * m ! 7 * m ! 9 * m ! 12 - m ! 3 * m ! 5
         * m ! 10 * m ! 12 + m ! 1 * m ! 7 * m ! 10 * m ! 12 + m ! 2 * m ! 5 * m ! 11 * m ! 12 - m ! 1
         * m ! 6 * m ! 11 * m ! 12 - m ! 3 * m ! 6 * m ! 8 * m ! 13 + m ! 2 * m ! 7 * m ! 8 * m ! 13
         + m ! 3 * m ! 4 * m ! 10 * m ! 13 - m ! 0 * m ! 7 * m ! 10 * m ! 13 - m ! 2 * m ! 4 * m ! 11
         * m ! 13 + m ! 0 * m ! 6 * m ! 11 * m ! 13 + m ! 3 * m ! 5 * m ! 8 * m ! 14 - m ! 1 * m ! 7
         * m ! 8 * m ! 14 - m ! 3 * m ! 4 * m ! 9 * m ! 14 + m ! 0 * m ! 7 * m ! 9 * m ! 14 + m ! 1
         * m ! 4 * m ! 11 * m ! 14 - m ! 0 * m ! 5 * m ! 11 * m ! 14 - m ! 2 * m ! 5 * m ! 8 * m ! 15
         + m ! 1 * m ! 6 * m ! 8 * m ! 15 + m ! 2 * m ! 4 * m ! 9 * m ! 15 - m ! 0 * m ! 6 * m ! 9
         * m ! 15 - m ! 1 * m ! 4 * m ! 10 * m ! 15 + m ! 0 * m ! 5 * m ! 10 * m ! 15)"

text \<open>
  \<open>invert(optresult)\<close>. The 16 cofactors, which the source names \<open>m00\<close> to \<open>m33\<close>, are
  named \<open>c00\<close> to \<open>c33\<close> here.
\<close>

definition invert :: "heap \<Rightarrow> ref \<Rightarrow> ref option \<Rightarrow> heap \<times> (error + ref)" where
  "invert h this optresult =
     (let det = determinant h this in
      if det = 0 then (h, Inl SingularMatrix)
      else
        let result = (case optresult of Some r \<Rightarrow> r | None \<Rightarrow> this);
            m = cells h this;
            r = cells h result;
            c00 = m ! 9 * m ! 14 * m ! 7 - m ! 13 * m ! 10 * m ! 7
                  + m ! 13 * m ! 6 * m ! 11 - m ! 5 * m ! 14 * m ! 11
                  - m ! 9 * m ! 6 * m ! 15 + m ! 5 * m ! 10 * m ! 15;
            c01 = m ! 12 * m ! 10 * m ! 7 - m ! 8 * m ! 14 * m ! 7
                  - m ! 12 * m ! 6 * m ! 11 + m ! 4 * m ! 14 * m ! 11
                  + m ! 8 * m ! 6 * m ! 15 - m ! 4 * m ! 10 * m ! 15;
            c02 = m ! 8 * m ! 13 * m ! 7 - m ! 12 * m ! 9 * m ! 7
                  + m ! 12 * m ! 5 * m ! 11 - m ! 4 * m ! 13 * m ! 11
                  - m ! 8 * m ! 5 * m ! 15 + m ! 4 * m ! 9 * m ! 15;
            c03 = m ! 12 * m ! 9 * m ! 6 - m ! 8 * m ! 13 * m ! 6
                  - m ! 12 * m ! 5 * m ! 10 + m ! 4 * m ! 13 * m ! 10
                  + m ! 8 * m ! 5 * m ! 14 - m ! 4 * m ! 9 * m ! 14;
            c10 = m ! 13 * m ! 10 * m ! 3 - m ! 9 * m ! 14 * m ! 3
                  - m ! 13 * m ! 2 * m ! 11 + m ! 1 * m ! 14 * m ! 11
                  + m ! 9 * m ! 2 * m ! 15 - m ! 1 * m ! 10 * m ! 15;
            c11 = m ! 8 * m ! 14 * m ! 3 - m ! 12 * m ! 10 * m ! 3
                  + m ! 12 * m ! 2 * m ! 11 - m ! 0 * m ! 14 * m ! 11
                  - m ! 8 * m ! 2 * m ! 15 + m ! 0 * m ! 10 * m ! 15;
            c12 = m ! 12 * m ! 9 * m ! 3 - m ! 8 * m ! 13 * m ! 3
                  - m ! 12 * m ! 1 * m ! 11 + m ! 0 * m ! 13 * m ! 11
                  + m ! 8 * m ! 1 * m ! 15 - m ! 0 * m ! 9 * m ! 15;
            c13 = m ! 8 * m ! 13 * m ! 2 - m ! 12 * m ! 9 * m ! 2
                  + m ! 12 * m ! 1 * m ! 10 - m ! 0 * m ! 13 * m ! 10
                  - m ! 8 * m ! 1 * m ! 14 + m ! 0 * m ! 9 * m ! 14;
            c20 = m ! 5 * m ! 14 * m ! 3 - m ! 13 * m ! 6 * m ! 3
                  + m ! 13 * m ! 2 * m ! 7 - m ! 1 * m ! 14 * m ! 7
                  - m ! 5 * m ! 2 * m ! 15 + m ! 1 * m ! 6 * m ! 15;
            c21 = m ! 12 * m ! 6 * m ! 3 - m ! 4 * m ! 14 * m ! 3
                  - m ! 12 * m ! 2 * m ! 7 + m ! 0 * m ! 14 * m ! 7
                  + m ! 4 * m ! 2 * m ! 15 - m ! 0 * m ! 6 * m ! 15;
            c22 = m ! 4 * m ! 13 * m ! 3 - m ! 12 * m ! 5 * m ! 3
                  + m ! 12 * m ! 1 * m ! 7 - m ! 0 * m ! 13 * m ! 7
                  - m ! 4 * m ! 1 * m ! 15 + m ! 0 * m ! 5 * m ! 15;
            c23 = m ! 12 * m ! 5 * m ! 2 - m ! 4 * m ! 13 * m ! 2
                  - m ! 12 * m ! 1 * m ! 6 + m ! 0 * m ! 13 * m ! 6
                  + m ! 4 * m ! 1 * m ! 14 - m ! 0 * m ! 5 * m ! 14;
            c30 = m ! 9 * m ! 6 * m ! 3 - m ! 5 * m ! 10 * m ! 3
                  - m ! 9 * m ! 2 * m ! 7 + m ! 1 * m ! 10 * m ! 7
                  + m ! 5 * m ! 2 * m ! 11 - m ! 1 * m ! 6 * m ! 11;
            c31 = m ! 4 * m ! 10 * m ! 3 - m ! 8 * m ! 6 * m ! 3
                  + m ! 8 * m ! 2 * m ! 7 - m ! 0 * m ! 10 * m ! 7
                  - m ! 4 * m ! 2 * m ! 11 + m ! 0 * m ! 6 * m ! 11;
            c32 = m ! 8 * m ! 5 * m ! 3 - m ! 4 * m ! 9 * m ! 3
                  - m ! 8 * m ! 1 * m ! 7 + m ! 0 * m ! 9 * m ! 7
                  + m ! 4 * m ! 1 * m ! 11 - m ! 0 * m ! 5 * m ! 11;
            c33 = m ! 4 * m ! 9 * m ! 2 - m ! 8 * m ! 5 * m ! 2
                  + m ! 8 * m ! 1 * m ! 6 - m ! 0 * m ! 9 * m ! 6
                  - m ! 4 * m ! 1 * m ! 10 + m ! 0 * m ! 5 * m ! 10;
            idet = 1 / det;
            r = r[0 := c00 * idet];
            r = r[1 := c10 * idet];
            r = r[2 := c20 * idet];
            r = r[3 := c30 * idet];
            r = r[4 := c01 * idet];
            r = r[5 := c11 * idet];
            r = r[6 := c21 * idet];
            r = r[7 := c31 * idet];
            r = r[8 := c02 * idet];
            r = r[9 := c12 * idet];
            r = r[10 := c22 * idet];
            r = r[11 := c32 * idet];
            r = r[12 := c03 * idet];
            r = r[13 := c13 * idet];
            r = r[14 := c23 * idet];
            r = r[15 := c33 * idet]
        in (h\<lparr>cells := (cells h)(result := r)\<rparr>, Inr this))"

section \<open>The matrix product\<close>

text \<open>
  The product of two 4\<times>4 matrices held in column-major buffers: the entry in row \<open>r\<close> and
  column \<open>c\<close>, at index \<open>4 * c + r\<close>, is the dot product of row \<open>r\<close> of the left operand
  with column \<open>c\<close> of the right operand. The static \<open>multiply\<close> is compared with it.
\<close>

definition matrix_product :: "number list \<Rightarrow> number list \<Rightarrow> number list" where
  "matrix_product av bv =
     map (\<lambda>i. \<Sum>k<4. av ! (4 * k + i mod 4) * bv ! (4 * (i div 4) + k)) [0..<16]"

section \<open>Example heaps\<close>

text \<open>The heap before any instance exists.\<close>

definition heap0 :: heap where
  "heap0 = \<lparr>cells = (\<lambda>_. []), nxt = 0\<rparr>"

text \<open>
  Two instances made by the constructor: reference 0 is then filled from the given array
  with \<open>fromArray\<close>, reference 1 stays the identity matrix.
\<close>

definition two_instances :: "number list \<Rightarrow> heap" where
  "two_instances vs =
     (let (h1, a) = new_Matrix4 heap0;
          (h2, b) = new_Matrix4 h1
      in fst (fromArray h2 a vs))"

text \<open>Reference 0 holds the numbers 1 to 16; its determinant is 0.\<close>

definition heap2 :: heap where
  "heap2 = two_instances [1, 2, 3, 4, 5, 6, 7, 8, 9, 10, 11, 12, 13, 14, 15, 16]"

text \<open>
  Reference 0 holds the scaling by (2, 4, 8) followed by the translation by (1, 2, 3); its
  determinant is 64.
\<close>

definition heap_affine :: heap where
  "heap_affine = two_instances [2, 0, 0, 0, 0, 4, 0, 0, 0, 0, 8, 0, 1, 2, 3, 1]"

section \<open>Double-precision arithmetic\<close>

text \<open>
  Whether \<open>invert\<close> raises is decided by \<open>det === 0\<close> on the number that the getter
  \<open>determinant\<close> computes, and that number depends on rounding, overflow and NaN. For this
  test the getter and \<open>invert\<close> are modelled a second time, over the values of an IEEE 754
  double (the \<open>number\<close> of JavaScript) with the arithmetic of round-to-nearest, ties to even.

  \<open>Finite v\<close> is the finite double of value \<open>v\<close>, with \<open>Finite 0\<close> the positive zero;
  \<open>NegZero\<close> is the negative zero. All NaNs are one value: a program cannot tell them apart.
\<close>

datatype double = Finite real | NegZero | PosInf | NegInf | NaN

text \<open>
  \<open>is_zero\<close>: either zero. \<open>negative\<close>: the sign bit. \<open>value_of\<close>: the real value of a
  finite double.
\<close>

fun is_zero :: "double \<Rightarrow> bool" where
  "is_zero (Finite v) = (v = 0)"
| "is_zero NegZero = True"
| "is_zero _ = False"

fun is_finite :: "double \<Rightarrow> bool" where
  "is_finite (Finite v) = True"
| "is_finite NegZero = True"
| "is_finite _ = False"

fun negative :: "double \<Rightarrow> bool" where
  "negative (Finite v) = (v < 0)"
| "negative NegZero = True"
| "negative NegInf = True"
| "negative _ = False"

fun value_of :: "double \<Rightarrow> real" where
  "value_of (Finite v) = v"
| "value_of _ = 0"

text \<open>
  Rounding a nonzero real to the nearest double, where no overflow occurs: \<open>binade x\<close> is the
  exponent of \<open>x\<close>, not below the exponent -1022 of the subnormal numbers; doubles of that
  exponent are the integer multiples of \<open>ulp x\<close> (53 significant bits); \<open>round_even\<close> is the
  nearest integer, the even one of two equally near.
\<close>

definition binade :: "real \<Rightarrow> int" where
  "binade x = max \<lfloor>log 2 \<bar>x\<bar>\<rfloor> (- 1022)"

definition ulp :: "real \<Rightarrow> real" where
  "ulp x = 2 powr of_int (binade x - 52)"

definition round_even :: "real \<Rightarrow> int" where
  "round_even y =
     (let n = \<lfloor>y\<rfloor> in
      if y - of_int n < 1 / 2 then n
      else if 1 / 2 < y - of_int n then n + 1
      else if even n then n else n + 1)"

definition rnd :: "real \<Rightarrow> real" where
  "rnd x = (if x = 0 then 0 else of_int (round_even (x / ulp x)) * ulp x)"

text \<open>
  The largest double is \<open>2\<^sup>1\<^sup>0\<^sup>2\<^sup>4 - 2\<^sup>9\<^sup>7\<^sup>1\<close>. A real of magnitude at least
  \<open>2\<^sup>1\<^sup>0\<^sup>2\<^sup>4 - 2\<^sup>9\<^sup>7\<^sup>0\<close>, half a unit in the last place above it, rounds to an infinity.
  \<open>round_to_double neg x\<close> is the double for the exact result \<open>x\<close> of an operation;
  \<open>neg\<close> is the sign that a zero result takes.
\<close>

definition overflow_threshold :: real where
  "overflow_threshold = 2 ^ 1024 - 2 ^ 970"

definition signed_inf :: "bool \<Rightarrow> double" where
  "signed_inf neg = (if neg then NegInf else PosInf)"

definition signed_zero :: "bool \<Rightarrow> double" where
  "signed_zero neg = (if neg then NegZero else Finite 0)"

definition round_to_double :: "bool \<Rightarrow> real \<Rightarrow> double" where
  "round_to_double neg x =
     (if overflow_threshold \<le> \<bar>x\<bar> then signed_inf (x < 0)
      else if rnd x = 0 then signed_zero neg
      else Finite (rnd x))"

text \<open>
  The operators \<open>+\<close>, \<open>-\<close>, \<open>*\<close> and \<open>/\<close> on doubles: a NaN operand gives NaN; on finite
  operands the exact result is rounded; the other cases are the rules for infinities and
  zeros (\<open>\<infinity> - \<infinity>\<close>, \<open>0 * \<infinity>\<close>, \<open>0 / 0\<close> and \<open>\<infinity> / \<infinity>\<close> are NaN). An exact sum of zero is
  the negative zero only when both operands are negative.
\<close>

instantiation double :: "{plus, minus, uminus, times, inverse}"
begin

fun uminus_double :: "double \<Rightarrow> double" where
  "uminus_double (Finite v) = (if v = 0 then NegZero else Finite (- v))"
| "uminus_double NegZero = Finite 0"
| "uminus_double PosInf = NegInf"
| "uminus_double NegInf = PosInf"
| "uminus_double NaN = NaN"

definition plus_double :: "double \<Rightarrow> double \<Rightarrow> double" where
  "plus_double a b =
     (if a = NaN \<or> b = NaN then NaN
      else if is_finite a \<and> is_finite b then
        (let s = value_of a + value_of b
         in round_to_double (if s = 0 then negative a \<and> negative b else s < 0) s)
      else if is_finite a then b
      else if is_finite b then a
      else if a = b then a
      else NaN)"

definition minus_double :: "double \<Rightarrow> double \<Rightarrow> double" where
  "minus_double a b = a + (- b)"

definition times_double :: "double \<Rightarrow> double \<Rightarrow> double" where
  "times_double a b =
     (if a = NaN \<or> b = NaN then NaN
      else if is_finite a \<and> is_finite b then
        round_to_double (negative a \<noteq> negative b) (value_of a * value_of b)
      else if is_zero a \<or> is_zero b then NaN
      else signed_inf (negative a \<noteq> negative b))"

definition divide_double :: "double \<Rightarrow> double \<Rightarrow> double" where
  "divide_double a b =
     (if a = NaN \<or> b = NaN then NaN
      else if is_finite a \<and> is_finite b then
        (if is_zero b then
           (if is_zero a then NaN else signed_inf (negative a \<noteq> negative b))
         else round_to_double (negative a \<noteq> negative b) (value_of a / value_of b))
      else if is_finite a then signed_zero (negative a \<noteq> negative b)
      else if is_finite b then signed_inf (negative a \<noteq> negative b)
      else NaN)"

definition inverse_double :: "double \<Rightarrow> double" where
  "inverse_double a = divide (Finite 1) a"

instance ..

end

text \<open>The comparison \<open>===\<close> on numbers: NaN equals nothing, the two zeros are equal.\<close>

definition strict_eq :: "double \<Rightarrow> double \<Rightarrow> bool" where
  "strict_eq a b \<longleftrightarrow> a \<noteq> NaN \<and> b \<noteq> NaN \<and> (a = b \<or> is_zero a \<and> is_zero b)"

text \<open>The heap of instances whose buffers hold doubles.\<close>

record dheap =
  dcells :: "ref \<Rightarrow> double list"
  dnxt :: ref

definition live_d :: "dheap \<Rightarrow> ref \<Rightarrow> bool" where
  "live_d h a \<longleftrightarrow> a < dnxt h \<and> length (dcells h a) = 16"

text \<open>The getter \<open>determinant\<close>, in double arithmetic.\<close>

definition determinant_d :: "dheap \<Rightarrow> ref \<Rightarrow> double" where
  "determinant_d h this =
     (let m = dcells h this in
         m ! 3 * m ! 6 * m ! 9 * m ! 12 - m ! 2 * m ! 7 * m ! 9 * m ! 12 - m ! 3 * m ! 5
         * m ! 10 * m ! 12 + m ! 1 * m ! 7 * m ! 10 * m ! 12 + m ! 2 * m ! 5 * m ! 11 * m ! 12 - m ! 1
         * m ! 6 * m ! 11 * m ! 12 - m ! 3 * m ! 6 * m ! 8 * m ! 13 + m ! 2 * m ! 7 * m ! 8 * m ! 13
         + m ! 3 * m ! 4 * m ! 10 * m ! 13 - m ! 0 * m ! 7 * m ! 10 * m ! 13 - m ! 2 * m ! 4 * m ! 11
         * m ! 13 + m ! 0 * m ! 6 * m ! 11 * m ! 13 + m ! 3 * m ! 5 * m ! 8 * m ! 14 - m ! 1 * m ! 7
         * m ! 8 * m ! 14 - m ! 3 * m ! 4 * m ! 9 * m ! 14 + m ! 0 * m ! 7 * m ! 9 * m ! 14 + m ! 1
         * m ! 4 * m ! 11 * m ! 14 - m ! 0 * m ! 5 * m ! 11 * m ! 14 - m ! 2 * m ! 5 * m ! 8 * m ! 15
         + m ! 1 * m ! 6 * m ! 8 * m ! 15 + m ! 2 * m ! 4 * m ! 9 * m ! 15 - m ! 0 * m ! 6 * m ! 9
         * m ! 15 - m ! 1 * m ! 4 * m ! 10 * m ! 15 + m ! 0 * m ! 5 * m ! 10 * m ! 15)"

text \<open>\<open>invert(optresult)\<close>, in double arithmetic.\<close>

definition invert_d :: "dheap \<Rightarrow> ref \<Rightarrow> ref option \<Rightarrow> dheap \<times> (error + ref)" where
  "invert_d h this optresult =
     (let det = determinant_d h this in
      if strict_eq det (Finite 0) then (h, Inl SingularMatrix)
      else
        let result = (case optresult of Some r \<Rightarrow> r | None \<Rightarrow> this);
            m = dcells h this;
            r = dcells h result;
            c00 = m ! 9 * m ! 14 * m ! 7 - m ! 13 * m ! 10 * m ! 7
                  + m ! 13 * m ! 6 * m ! 11 - m ! 5 * m ! 14 * m ! 11
                  - m ! 9 * m ! 6 * m ! 15 + m ! 5 * m ! 10 * m ! 15;
            c01 = m ! 12 * m ! 10 * m ! 7 - m ! 8 * m ! 14 * m ! 7
                  - m ! 12 * m ! 6 * m ! 11 + m ! 4 * m ! 14 * m ! 11
                  + m ! 8 * m ! 6 * m ! 15 - m ! 4 * m ! 10 * m ! 15;
            c02 = m ! 8 * m ! 13 * m ! 7 - m ! 12 * m ! 9 * m ! 7
                  + m ! 12 * m ! 5 * m ! 11 - m ! 4 * m ! 13 * m ! 11
                  - m ! 8 * m ! 5 * m ! 15 + m ! 4 * m ! 9 * m ! 15;
            c03 = m ! 12 * m ! 9 * m ! 6 - m ! 8 * m ! 13 * m ! 6
                  - m ! 12 * m ! 5 * m ! 10 + m ! 4 * m ! 13 * m ! 10
                  + m ! 8 * m ! 5 * m ! 14 - m ! 4 * m ! 9 * m ! 14;
            c10 = m ! 13 * m ! 10 * m ! 3 - m ! 9 * m ! 14 * m ! 3
                  - m ! 13 * m ! 2 * m ! 11 + m ! 1 * m ! 14 * m ! 11
                  + m ! 9 * m ! 2 * m ! 15 - m ! 1 * m ! 10 * m ! 15;
            c11 = m ! 8 * m ! 14 * m ! 3 - m ! 12 * m ! 10 * m ! 3
                  + m ! 12 * m ! 2 * m ! 11 - m ! 0 * m ! 14 * m ! 11
                  - m ! 8 * m ! 2 * m ! 15 + m ! 0 * m ! 10 * m ! 15;
            c12 = m ! 12 * m ! 9 * m ! 3 - m ! 8 * m ! 13 * m ! 3
                  - m ! 12 * m ! 1 * m ! 11 + m ! 0 * m ! 13 * m ! 11
                  + m ! 8 * m ! 1 * m ! 15 - m ! 0 * m ! 9 * m ! 15;
            c13 = m ! 8 * m ! 13 * m ! 2 - m ! 12 * m ! 9 * m ! 2
                  + m ! 12 * m ! 1 * m ! 10 - m ! 0 * m ! 13 * m ! 10
                  - m ! 8 * m ! 1 * m ! 14 + m ! 0 * m ! 9 * m ! 14;
            c20 = m ! 5 * m ! 14 * m ! 3 - m ! 13 * m ! 6 * m ! 3
                  + m ! 13 * m ! 2 * m ! 7 - m ! 1 * m ! 14 * m ! 7
                  - m ! 5 * m ! 2 * m ! 15 + m ! 1 * m ! 6 * m ! 15;
            c21 = m ! 12 * m ! 6 * m ! 3 - m ! 4 * m ! 14 * m ! 3
                  - m ! 12 * m ! 2 * m ! 7 + m ! 0 * m ! 14 * m ! 7
                  + m ! 4 * m ! 2 * m ! 15 - m ! 0 * m ! 6 * m ! 15;
            c22 = m ! 4 * m ! 13 * m ! 3 - m ! 12 * m ! 5 * m ! 3
                  + m ! 12 * m ! 1 * m ! 7 - m ! 0 * m ! 13 * m ! 7
                  - m ! 4 * m ! 1 * m ! 15 + m ! 0 * m ! 5 * m ! 15;
            c23 = m ! 12 * m ! 5 * m ! 2 - m ! 4 * m ! 13 * m ! 2
                  - m ! 12 * m ! 1 * m ! 6 + m ! 0 * m ! 13 * m ! 6
                  + m ! 4 * m ! 1 * m ! 14 - m ! 0 * m ! 5 * m ! 14;
            c30 = m ! 9 * m ! 6 * m ! 3 - m ! 5 * m ! 10 * m ! 3
                  - m ! 9 * m ! 2 * m ! 7 + m ! 1 * m ! 10 * m ! 7
                  + m ! 5 * m ! 2 * m ! 11 - m ! 1 * m ! 6 * m ! 11;
            c31 = m ! 4 * m ! 10 * m ! 3 - m ! 8 * m ! 6 * m ! 3
                  + m ! 8 * m ! 2 * m ! 7 - m ! 0 * m ! 10 * m ! 7
                  - m ! 4 * m ! 2 * m ! 11 + m ! 0 * m ! 6 * m ! 11;
            c32 = m ! 8 * m ! 5 * m ! 3 - m ! 4 * m ! 9 * m ! 3
                  - m ! 8 * m ! 1 * m ! 7 + m ! 0 * m ! 9 * m ! 7
                  + m ! 4 * m ! 1 * m ! 11 - m ! 0 * m ! 5 * m ! 11;
            c33 = m ! 4 * m ! 9 * m ! 2 - m ! 8 * m ! 5 * m ! 2
                  + m ! 8 * m ! 1 * m ! 6 - m ! 0 * m ! 9 * m ! 6
                  - m ! 4 * m ! 1 * m ! 10 + m ! 0 * m ! 5 * m ! 10;
            idet = Finite 1 / det;
            r = r[0 := c00 * idet];
            r = r[1 := c10 * idet];
            r = r[2 := c20 * idet];
            r = r[3 := c30 * idet];
            r = r[4 := c01 * idet];
            r = r[5 := c11 * idet];
            r = r[6 := c21 * idet];
            r = r[7 := c31 * idet];
            r = r[8 := c02 * idet];
            r = r[9 := c12 * idet];
            r = r[10 := c22 * idet];
            r = r[11 := c32 * idet];
            r = r[12 := c03 * idet];
            r = r[13 := c13 * idet];
            r = r[14 := c23 * idet];
            r = r[15 := c33 * idet]
        in (h\<lparr>dcells := (dcells h)(result := r)\<rparr>, Inr this))"

text \<open>
  \<open>finite_upto B d\<close>: \<open>d\<close> is finite and of magnitude at most \<open>B\<close>. \<open>bounded\<close> is the bound
  \<open>2\<^sup>3\<^sup>0\<^sup>0\<close>, under which no product of three entries overflows.
\<close>

definition finite_upto :: "real \<Rightarrow> double \<Rightarrow> bool" where
  "finite_upto B d \<longleftrightarrow> is_finite d \<and> \<bar>value_of d\<bar> \<le> B"

definition bounded :: "double \<Rightarrow> bool" where
  "bounded d \<longleftrightarrow> finite_upto (2 ^ 300) d"

text \<open>
  One instance whose third row (indices 2, 6, 10, 14) is zero and whose entries at indices
  1 and 7 are \<open>2\<^sup>6\<^sup>0\<^sup>0\<close>, a double.
\<close>

definition dheap_overflow :: dheap where
  "dheap_overflow =
     \<lparr>dcells = (\<lambda>_. [])(0 :=
        [Finite 1, Finite (2 ^ 600), Finite 0, Finite 1,
         Finite 1, Finite 1, Finite 0, Finite (2 ^ 600),
         Finite 1, Finite 1, Finite 0, Finite 1,
         Finite 1, Finite 1, Finite 0, Finite 1]),
      dnxt = 1\<rparr>"

text \<open>One instance whose third row is zero, with small entries.\<close>

definition dheap_zero_row :: dheap where
  "dheap_zero_row =
     \<lparr>dcells = (\<lambda>_. [])(0 :=
        [Finite 1, Finite 2, Finite 0, Finite 4,
         Finite 5, Finite 6, Finite 0, Finite 8,
         Finite 9, Finite 10, Finite 0, Finite 12,
         Finite 13, Finite 14, Finite 0, Finite 16]),
      dnxt = 1\<rparr>"

section \<open>Auxiliary facts\<close>

subsection \<open>Lists of 16 entries\<close>

lemma list16:
  assumes "length (xs :: 'a list) = 16"
  obtains a0 a1 a2 a3 a4 a5 a6 a7 a8 a9 a10 a11 a12 a13 a14 a15
  where "xs = [a0, a1, a2, a3, a4, a5, a6, a7, a8, a9, a10, a11, a12, a13, a14, a15]"
proof -
  from assms have "length xs = Suc (Suc (Suc (Suc (Suc (Suc (Suc (Suc (Suc (Suc (Suc (Suc
      (Suc (Suc (Suc (Suc 0)))))))))))))))"
    by simp
  then show thesis
    by (auto simp: length_Suc_conv intro: that)
qed

lemma take16_nth:
  assumes "16 \<le> length (xs :: 'a list)"
  shows "take 16 xs = [xs ! 0, xs ! 1, xs ! 2, xs ! 3, xs ! 4, xs ! 5, xs ! 6, xs ! 7,
                       xs ! 8, xs ! 9, xs ! 10, xs ! 11, xs ! 12, xs ! 13, xs ! 14, xs ! 15]"
proof -
  from assms have len: "length (take 16 xs) = 16" by simp
  from len obtain a0 a1 a2 a3 a4 a5 a6 a7 a8 a9 a10 a11 a12 a13 a14 a15
    where t: "take 16 xs = [a0, a1, a2, a3, a4, a5, a6, a7, a8, a9, a10, a11, a12, a13, a14, a15]"
    by (rule list16)
  have "\<And>i. i < 16 \<Longrightarrow> xs ! i = [a0, a1, a2, a3, a4, a5, a6, a7, a8, a9, a10, a11, a12, a13, a14, a15] ! i"
    by (simp flip: t)
  then show ?thesis
    by (simp add: t)
qed

lemma upt16: "[0..<16] = [0, 1, 2, 3, 4, 5, 6, 7, 8, 9, 10, 11, 12, 13, 14, 15]"
  by (simp add: upt_rec)

lemma sum4: "(\<Sum>k<(4::nat). f k) = f 0 + f 1 + f 2 + (f 3 :: real)"
  by (simp add: eval_nat_numeral lessThan_Suc)

subsection \<open>What each operation does to the heap\<close>

lemma new_Matrix4_eq:
  "new_Matrix4 h =
     (h\<lparr>cells := (cells h)(nxt h := [1, 0, 0, 0, 0, 1, 0, 0, 0, 0, 1, 0, 0, 0, 0, 1]),
        nxt := Suc (nxt h)\<rparr>, nxt h)"
  by (simp add: new_Matrix4_def Let_def)

lemma set_values_cells:
  assumes "length (cells h this) = 16"
  shows "set_values h this p00 p01 p02 p03 p10 p11 p12 p13 p20 p21 p22 p23 p30 p31 p32 p33 =
           (h\<lparr>cells := (cells h)(this :=
               [p00, p10, p20, p30, p01, p11, p21, p31, p02, p12, p22, p32, p03, p13, p23, p33])\<rparr>,
            this)"
proof -
  from assms obtain a0 a1 a2 a3 a4 a5 a6 a7 a8 a9 a10 a11 a12 a13 a14 a15
    where "cells h this = [a0, a1, a2, a3, a4, a5, a6, a7, a8, a9, a10, a11, a12, a13, a14, a15]"
    by (rule list16)
  then show ?thesis
    by (simp add: set_values_def Let_def)
qed

lemma deserialise_cells:
  assumes "length (cells h this) = 16"
  shows "deserialise h this j =
           (h\<lparr>cells := (cells h)(this :=
               [m00 j, m10 j, m20 j, m30 j, m01 j, m11 j, m21 j, m31 j,
                m02 j, m12 j, m22 j, m32 j, m03 j, m13 j, m23 j, m33 j])\<rparr>, this)"
  using assms by (simp add: deserialise_def set_values_cells)

lemma serialise_entries:
  assumes "length (cells h this) = 16"
  shows "[m00 (serialise h this), m10 (serialise h this), m20 (serialise h this),
          m30 (serialise h this), m01 (serialise h this), m11 (serialise h this),
          m21 (serialise h this), m31 (serialise h this), m02 (serialise h this),
          m12 (serialise h this), m22 (serialise h this), m32 (serialise h this),
          m03 (serialise h this), m13 (serialise h this), m23 (serialise h this),
          m33 (serialise h this)] = cells h this"
proof -
  from assms obtain a0 a1 a2 a3 a4 a5 a6 a7 a8 a9 a10 a11 a12 a13 a14 a15
    where "cells h this = [a0, a1, a2, a3, a4, a5, a6, a7, a8, a9, a10, a11, a12, a13, a14, a15]"
    by (rule list16)
  then show ?thesis
    by (simp add: serialise_def)
qed

lemma fromArray_cells:
  assumes "length (cells h this) = 16" and "16 \<le> length values"
  shows "fromArray h this values = (h\<lparr>cells := (cells h)(this := take 16 values)\<rparr>, Inr this)"
proof -
  from assms(1) obtain a0 a1 a2 a3 a4 a5 a6 a7 a8 a9 a10 a11 a12 a13 a14 a15
    where "cells h this = [a0, a1, a2, a3, a4, a5, a6, a7, a8, a9, a10, a11, a12, a13, a14, a15]"
    by (rule list16)
  with assms(2) show ?thesis
    by (simp add: fromArray_def Let_def take16_nth)
qed

lemma clone_eq:
  assumes "live h this"
  shows "clone h this =
           (h\<lparr>cells := (cells h)(nxt h := cells h this), nxt := Suc (nxt h)\<rparr>, Inr (nxt h))"
  using assms
  by (simp add: clone_def new_Matrix4_eq live_def fromArray_cells)


lemma matrix_product_entries:
  "matrix_product av bv =
     [av ! 0 * bv ! 0 + av ! 4 * bv ! 1 + av ! 8 * bv ! 2 + av ! 12 * bv ! 3,
      av ! 1 * bv ! 0 + av ! 5 * bv ! 1 + av ! 9 * bv ! 2 + av ! 13 * bv ! 3,
      av ! 2 * bv ! 0 + av ! 6 * bv ! 1 + av ! 10 * bv ! 2 + av ! 14 * bv ! 3,
      av ! 3 * bv ! 0 + av ! 7 * bv ! 1 + av ! 11 * bv ! 2 + av ! 15 * bv ! 3,
      av ! 0 * bv ! 4 + av ! 4 * bv ! 5 + av ! 8 * bv ! 6 + av ! 12 * bv ! 7,
      av ! 1 * bv ! 4 + av ! 5 * bv ! 5 + av ! 9 * bv ! 6 + av ! 13 * bv ! 7,
      av ! 2 * bv ! 4 + av ! 6 * bv ! 5 + av ! 10 * bv ! 6 + av ! 14 * bv ! 7,
      av ! 3 * bv ! 4 + av ! 7 * bv ! 5 + av ! 11 * bv ! 6 + av ! 15 * bv ! 7,
      av ! 0 * bv ! 8 + av ! 4 * bv ! 9 + av ! 8 * bv ! 10 + av ! 12 * bv ! 11,
      av ! 1 * bv ! 8 + av ! 5 * bv ! 9 + av ! 9 * bv ! 10 + av ! 13 * bv ! 11,
      av ! 2 * bv ! 8 + av ! 6 * bv ! 9 + av ! 10 * bv ! 10 + av ! 14 * bv ! 11,
      av ! 3 * bv ! 8 + av ! 7 * bv ! 9 + av ! 11 * bv ! 10 + av ! 15 * bv ! 11,
      av ! 0 * bv ! 12 + av ! 4 * bv ! 13 + av ! 8 * bv ! 14 + av ! 12 * bv ! 15,
      av ! 1 * bv ! 12 + av ! 5 * bv ! 13 + av ! 9 * bv ! 14 + av ! 13 * bv ! 15,
      av ! 2 * bv ! 12 + av ! 6 * bv ! 13 + av ! 10 * bv ! 14 + av ! 14 * bv ! 15,
      av ! 3 * bv ! 12 + av ! 7 * bv ! 13 + av ! 11 * bv ! 14 + av ! 15 * bv ! 15]"
  by (simp add: matrix_product_def upt16 sum4) (simp add: numeral_2_eq_2)

lemma multiply_static_cells:
  assumes "length (cells h result) = 16"
  shows "multiply_static h a b result =
           (h\<lparr>cells := (cells h)(result := matrix_product (cells h a) (cells h b))\<rparr>, result)"
proof -
  from assms obtain r0 r1 r2 r3 r4 r5 r6 r7 r8 r9 r10 r11 r12 r13 r14 r15
    where "cells h result = [r0, r1, r2, r3, r4, r5, r6, r7, r8, r9, r10, r11, r12, r13, r14, r15]"
    by (rule list16)
  then show ?thesis
    by (simp add: multiply_static_def Let_def matrix_product_entries)
qed

lemma matrix_product_identity_left:
  assumes "length m = 16"
  shows "matrix_product [1, 0, 0, 0, 0, 1, 0, 0, 0, 0, 1, 0, 0, 0, 0, 1] m = m"
proof -
  from assms obtain a0 a1 a2 a3 a4 a5 a6 a7 a8 a9 a10 a11 a12 a13 a14 a15
    where "m = [a0, a1, a2, a3, a4, a5, a6, a7, a8, a9, a10, a11, a12, a13, a14, a15]"
    by (rule list16)
  then show ?thesis
    by (simp add: matrix_product_entries)
qed

lemma matrix_product_identity_right:
  assumes "length m = 16"
  shows "matrix_product m [1, 0, 0, 0, 0, 1, 0, 0, 0, 0, 1, 0, 0, 0, 0, 1] = m"
proof -
  from assms obtain a0 a1 a2 a3 a4 a5 a6 a7 a8 a9 a10 a11 a12 a13 a14 a15
    where "m = [a0, a1, a2, a3, a4, a5, a6, a7, a8, a9, a10, a11, a12, a13, a14, a15]"
    by (rule list16)
  then show ?thesis
    by (simp add: matrix_product_entries)
qed

lemma composePosRotSca_cells:
  assumes "length (cells h M) = 16"
  shows "cells (fst (composePosRotSca h M p q s)) M =
     [vx s * (1 - (qy q * (qy q * 2) + qz q * (qz q * 2))),
      vx s * (qx q * (qy q * 2) + qw q * (qz q * 2)),
      vx s * (qx q * (qz q * 2) - qw q * (qy q * 2)),
      0,
      vy s * (qx q * (qy q * 2) - qw q * (qz q * 2)),
      vy s * (1 - (qx q * (qx q * 2) + qz q * (qz q * 2))),
      vy s * (qy q * (qz q * 2) + qw q * (qx q * 2)),
      0,
      vz s * (qx q * (qz q * 2) + qw q * (qy q * 2)),
      vz s * (qy q * (qz q * 2) - qw q * (qx q * 2)),
      vz s * (1 - (qx q * (qx q * 2) + qy q * (qy q * 2))),
      0,
      vx p, vy p, vz p, 1]"
proof -
  from assms obtain a0 a1 a2 a3 a4 a5 a6 a7 a8 a9 a10 a11 a12 a13 a14 a15
    where "cells h M = [a0, a1, a2, a3, a4, a5, a6, a7, a8, a9, a10, a11, a12, a13, a14, a15]"
    by (rule list16)
  then show ?thesis
    by (simp add: composePosRotSca_def Let_def)
qed

lemma Vector3_len_scaled:
  assumes "0 < k" and "a * a + b * b + c * c = 1"
  shows "Vector3_len (k * a) (k * b) (k * c) = k"
proof -
  have "k * a * (k * a) + k * b * (k * b) + k * c * (k * c) = k * k * (a * a + b * b + c * c)"
    by (simp add: algebra_simps)
  with assms show ?thesis
    by (simp add: Vector3_len_def)
qed

lemma decompose_scaled_basis:
  assumes m: "cells h M = [sx * A, sx * B, sx * C, v3, sy * D, sy * E, sy * F, v7,
                           sz * G, sz * H, sz * I, v11, px, py, pz, v15]"
    and pos: "0 < sx" "0 < sy" "0 < sz"
    and unit: "A * A + B * B + C * C = 1" "D * D + E * E + F * F = 1" "G * G + H * H + I * I = 1"
  shows "decomposePosRotSca h M =
     (\<lparr>vx = px, vy = py, vz = pz\<rparr>,
      (if A + E + I \<ge> 0 then
         \<lparr>qx = (H - F) * (0.5 / sqrt (A + E + I + 1)),
          qy = (C - G) * (0.5 / sqrt (A + E + I + 1)),
          qz = (D - B) * (0.5 / sqrt (A + E + I + 1)),
          qw = 0.5 * sqrt (A + E + I + 1)\<rparr>
       else if A > E \<and> A > I then
         \<lparr>qx = sqrt (1 + A - E - I) * 0.5,
          qy = (D + B) * (0.5 / sqrt (1 + A - E - I)),
          qz = (C + G) * (0.5 / sqrt (1 + A - E - I)),
          qw = (H - F) * (0.5 / sqrt (1 + A - E - I))\<rparr>
       else if E > I then
         \<lparr>qx = (D + B) * (0.5 / sqrt (1 + E - A - I)),
          qy = sqrt (1 + E - A - I) * 0.5,
          qz = (H + F) * (0.5 / sqrt (1 + E - A - I)),
          qw = (C - G) * (0.5 / sqrt (1 + E - A - I))\<rparr>
       else
         \<lparr>qx = (C + G) * (0.5 / sqrt (1 + I - A - E)),
          qy = (H + F) * (0.5 / sqrt (1 + I - A - E)),
          qz = sqrt (1 + I - A - E) * 0.5,
          qw = (D - B) * (0.5 / sqrt (1 + I - A - E))\<rparr>),
      \<lparr>vx = sx, vy = sy, vz = sz\<rparr>)"
proof -
  have l: "Vector3_len (sx * A) (sx * B) (sx * C) = sx"
    "Vector3_len (sy * D) (sy * E) (sy * F) = sy"
    "Vector3_len (sz * G) (sz * H) (sz * I) = sz"
    using pos unit by (simp_all add: Vector3_len_scaled)
  from pos have nz: "sx \<noteq> 0" "sy \<noteq> 0" "sz \<noteq> 0" by simp_all
  show ?thesis
    by (simp add: decomposePosRotSca_def Let_def m l nz)
qed


lemma sqrt_double_square: "sqrt ((2 * a) * (2 * a)) = 2 * \<bar>a\<bar>"
proof -
  have "sqrt ((2 * a) * (2 * a)) = \<bar>2 * a\<bar>"
    by (rule real_sqrt_abs2)
  then show ?thesis
    by (simp add: abs_mult)
qed

subsection \<open>The example heaps\<close>

lemma two_instances_nxt: "nxt (two_instances vs) = 2"
  by (simp add: two_instances_def heap0_def new_Matrix4_eq fromArray_def Let_def)

lemma two_instances_cells0: "length vs = 16 \<Longrightarrow> cells (two_instances vs) 0 = vs"
  by (simp add: two_instances_def heap0_def new_Matrix4_eq fromArray_cells)

lemma two_instances_cells1:
  "cells (two_instances vs) (Suc 0) = [1, 0, 0, 0, 0, 1, 0, 0, 0, 0, 1, 0, 0, 0, 0, 1]"
  by (simp add: two_instances_def heap0_def new_Matrix4_eq fromArray_def Let_def)

lemma heap2_cells0:
  "cells heap2 0 = [1, 2, 3, 4, 5, 6, 7, 8, 9, 10, 11, 12, 13, 14, 15, 16]"
  by (simp add: heap2_def two_instances_cells0)

lemma heap2_cells1:
  "cells heap2 (Suc 0) = [1, 0, 0, 0, 0, 1, 0, 0, 0, 0, 1, 0, 0, 0, 0, 1]"
  by (simp add: heap2_def two_instances_cells1)

lemma heap2_nxt: "nxt heap2 = 2"
  by (simp add: heap2_def two_instances_nxt)

lemma determinant_heap2: "determinant heap2 0 = 0"
  by (simp add: determinant_def heap2_cells0)

lemma heap_affine_cells0:
  "cells heap_affine 0 = [2, 0, 0, 0, 0, 4, 0, 0, 0, 0, 8, 0, 1, 2, 3, 1]"
  by (simp add: heap_affine_def two_instances_cells0)

lemma heap_affine_cells1:
  "cells heap_affine (Suc 0) = [1, 0, 0, 0, 0, 1, 0, 0, 0, 0, 1, 0, 0, 0, 0, 1]"
  by (simp add: heap_affine_def two_instances_cells1)

lemma determinant_heap_affine: "determinant heap_affine 0 = 64"
  by (simp add: determinant_def heap_affine_cells0)

subsection \<open>Square roots of the examples\<close>

lemma sqrt_4: "sqrt 4 = 2"
  by (rule real_sqrt_unique) simp_all

lemma sqrt_16: "sqrt 16 = 4"
  by (rule real_sqrt_unique) simp_all

subsection \<open>Rounding\<close>

lemma rnd_0: "rnd 0 = 0"
  by (simp add: rnd_def)

lemma round_even_close: "\<bar>of_int (round_even y) - y\<bar> \<le> 1 / 2"
  unfolding round_even_def Let_def
  by (auto simp add: abs_if) linarith+

lemma ulp_pos: "0 < ulp x"
  by (simp add: ulp_def)

lemma ulp_le:
  assumes "x \<noteq> 0"
  shows "ulp x \<le> \<bar>x\<bar> + 1"
proof (cases "- 1022 \<le> \<lfloor>log 2 \<bar>x\<bar>\<rfloor>")
  case True
  then have "binade x = \<lfloor>log 2 \<bar>x\<bar>\<rfloor>" by (simp add: binade_def)
  then have "of_int (binade x - 52) \<le> log 2 \<bar>x\<bar>"
    by (simp add: algebra_simps) linarith
  then have "ulp x \<le> 2 powr log 2 \<bar>x\<bar>"
    unfolding ulp_def by (simp only: powr_le_cancel_iff) 
  with assms show ?thesis by simp
next
  case False
  then have "binade x = - 1022" by (simp add: binade_def)
  then have "ulp x = 2 powr (- 1074)" by (simp add: ulp_def)
  also have "\<dots> \<le> 2 powr 0" by (rule powr_mono) simp_all
  finally have "ulp x \<le> 1" by simp
  then show ?thesis by linarith
qed

lemma rnd_bound: "\<bar>rnd x\<bar> \<le> 2 * \<bar>x\<bar> + 1"
proof (cases "x = 0")
  case True
  then show ?thesis by (simp add: rnd_0)
next
  case False
  define u where "u = ulp x"
  define n where "n = round_even (x / u)"
  have u: "0 < u" by (simp add: u_def ulp_pos)
  have "\<bar>of_int n - x / u\<bar> \<le> 1 / 2"
    unfolding n_def by (rule round_even_close)
  then have "\<bar>of_int n - x / u\<bar> * u \<le> 1 / 2 * u"
    using u by (simp add: mult_right_mono)
  moreover have "\<bar>of_int n - x / u\<bar> * u = \<bar>of_int n * u - x\<bar>"
  proof -
    have "\<bar>of_int n - x / u\<bar> * u = \<bar>(of_int n - x / u) * u\<bar>"
      using u by (simp add: abs_mult)
    also have "(of_int n - x / u) * u = of_int n * u - x"
      using u by (simp add: field_simps)
    finally show ?thesis .
  qed
  ultimately have "\<bar>of_int n * u - x\<bar> \<le> u / 2" by simp
  then have "\<bar>of_int n * u\<bar> \<le> \<bar>x\<bar> + u / 2" by linarith
  moreover have "u \<le> \<bar>x\<bar> + 1"
    unfolding u_def using False by (rule ulp_le)
  moreover have "rnd x = of_int n * u"
    using False by (simp add: rnd_def n_def u_def)
  ultimately show ?thesis by linarith
qed

text \<open>
  The rounding at some known values: 1 is a double; the double nearest to 1/10; and two
  ties (\<open>2\<^sup>5\<^sup>3 + 1\<close> and \<open>2\<^sup>5\<^sup>3 + 3\<close> lie half way between two doubles).
\<close>

lemma binade_eq:
  assumes "2 ^ k \<le> \<bar>x\<bar>" and "\<bar>x\<bar> < 2 ^ Suc k"
  shows "binade x = int k"
proof -
  have "(0::real) < 2 ^ k" by simp
  with assms(1) have pos: "0 < \<bar>x\<bar>" by linarith
  have "\<lfloor>log 2 \<bar>x\<bar>\<rfloor> = int k"
    using assms pos
    by (subst floor_log_eq_powr_iff) (simp_all add: powr_realpow powr_add)
  then show ?thesis by (simp add: binade_def)
qed

lemma rnd_1: "rnd 1 = 1"
proof -
  have "binade 1 = int 0" by (rule binade_eq) simp_all
  then have u: "ulp 1 = 1 / 2 ^ 52"
    by (simp add: ulp_def powr_minus_divide)
  have r: "round_even (2 ^ 52) = 2 ^ 52"
    by (simp add: round_even_def)
  show ?thesis using r by (simp only: rnd_def u) simp
qed

lemma rnd_tie_down: "rnd (2 ^ 53 + 1) = 2 ^ 53"
proof -
  have "binade (2 ^ 53 + 1) = int 53" by (rule binade_eq) simp_all
  then have u: "ulp (2 ^ 53 + 1) = 2"
    by (simp add: ulp_def)
  have "\<lfloor>(2 ^ 53 + 1) / (2::real)\<rfloor> = 2 ^ 52"
    by (rule floor_unique) simp_all
  then have "round_even ((2 ^ 53 + 1) / 2) = 2 ^ 52"
    by (simp add: round_even_def Let_def)
  with u show ?thesis by (simp add: rnd_def)
qed

lemma rnd_tie_up: "rnd (2 ^ 53 + 3) = 2 ^ 53 + 4"
proof -
  have "binade (2 ^ 53 + 3) = int 53" by (rule binade_eq) simp_all
  then have u: "ulp (2 ^ 53 + 3) = 2"
    by (simp add: ulp_def)
  have "\<lfloor>(2 ^ 53 + 3) / (2::real)\<rfloor> = 2 ^ 52 + 1"
    by (rule floor_unique) simp_all
  then have "round_even ((2 ^ 53 + 3) / 2) = 2 ^ 52 + 2"
    by (simp add: round_even_def Let_def)
  with u show ?thesis by (simp add: rnd_def)
qed

lemma rnd_tenth: "rnd (1 / 10) = 3602879701896397 / 2 ^ 55"
proof -
  have "\<lfloor>log 2 \<bar>1 / 10 :: real\<bar>\<rfloor> = - 4"
    by (subst floor_log_eq_powr_iff) (simp_all add: powr_minus_divide)
  then have "binade (1 / 10) = - 4" by (simp add: binade_def)
  then have u: "ulp (1 / 10) = 1 / 2 ^ 56"
    by (simp add: ulp_def powr_minus_divide)
  have "\<lfloor>(1 / 10) * (2::real) ^ 56\<rfloor> = 7205759403792793"
    by (rule floor_unique) simp_all
  then have r: "round_even ((1 / 10) * 2 ^ 56) = 7205759403792794"
    by (simp add: round_even_def Let_def)
  show ?thesis using r by (simp only: rnd_def u) simp
qed

subsection \<open>Zeros, NaN and finite products of doubles\<close>

lemma overflow_threshold_pos: "0 < overflow_threshold"
  by (simp add: overflow_threshold_def)

lemma is_zero_finite: "is_zero d \<Longrightarrow> is_finite d"
  by (cases d) simp_all

lemma is_zero_value: "is_zero d \<Longrightarrow> value_of d = 0"
  by (cases d) simp_all

lemma is_finite_not_NaN: "is_finite d \<Longrightarrow> d \<noteq> NaN"
  by (cases d) simp_all

lemma is_zero_signed_zero: "is_zero (signed_zero neg)"
  by (simp add: signed_zero_def)

lemma round_to_double_0: "round_to_double neg 0 = signed_zero neg"
  using overflow_threshold_pos by (simp add: round_to_double_def rnd_0)

lemma NaN_plus: "NaN + d = NaN" "d + NaN = NaN"
  by (simp_all add: plus_double_def)

lemma NaN_minus: "NaN - d = NaN" "d - NaN = NaN"
  by (simp_all add: minus_double_def NaN_plus)

lemma NaN_times: "NaN * d = NaN" "d * NaN = NaN"
  by (simp_all add: times_double_def)

lemma strict_eq_zero: "strict_eq d (Finite 0) \<longleftrightarrow> is_zero d"
  by (cases d) (simp_all add: strict_eq_def)

lemma times_zero_right:
  assumes "is_finite a" and "is_zero z"
  shows "is_zero (a * z)"
  using assms
  by (simp add: times_double_def is_finite_not_NaN is_zero_finite is_zero_value
      round_to_double_0 is_zero_signed_zero)

lemma times_zero_left:
  assumes "is_zero z" and "is_finite b"
  shows "is_zero (z * b)"
  using assms
  by (simp add: times_double_def is_finite_not_NaN is_zero_finite is_zero_value
      round_to_double_0 is_zero_signed_zero)

lemma uminus_zero: "is_zero d \<Longrightarrow> is_zero (- d)"
  by (cases d) simp_all

lemma plus_zero:
  assumes "is_zero a" and "is_zero b"
  shows "is_zero (a + b)"
  using assms
  by (simp add: plus_double_def is_finite_not_NaN is_zero_finite is_zero_value
      round_to_double_0 is_zero_signed_zero)

lemma minus_zero:
  assumes "is_zero a" and "is_zero b"
  shows "is_zero (a - b)"
  using assms by (simp add: minus_double_def plus_zero uminus_zero)

lemma round_to_double_upto:
  assumes "\<bar>x\<bar> < overflow_threshold" and "\<bar>x\<bar> \<le> C"
  shows "finite_upto (2 * C + 1) (round_to_double neg x)"
proof -
  have "\<bar>rnd x\<bar> \<le> 2 * \<bar>x\<bar> + 1" by (rule rnd_bound)
  with assms(2) have "\<bar>rnd x\<bar> \<le> 2 * C + 1" by linarith
  moreover from assms(2) have "0 \<le> 2 * C + 1" by linarith
  ultimately show ?thesis
    using assms(1) by (simp add: round_to_double_def finite_upto_def signed_zero_def)
qed

lemma times_upto:
  assumes "finite_upto A a" and "finite_upto B b" and "A * B < overflow_threshold"
  shows "finite_upto (2 * (A * B) + 1) (a * b)"
proof -
  from assms have fin: "is_finite a" "is_finite b"
    and le: "\<bar>value_of a\<bar> \<le> A" "\<bar>value_of b\<bar> \<le> B"
    by (simp_all add: finite_upto_def)
  have "\<bar>value_of a * value_of b\<bar> = \<bar>value_of a\<bar> * \<bar>value_of b\<bar>"
    by (rule abs_mult)
  also from le have "\<dots> \<le> A * B"
    by (intro mult_mono) simp_all
  finally have p: "\<bar>value_of a * value_of b\<bar> \<le> A * B" .
  with assms(3) have "\<bar>value_of a * value_of b\<bar> < overflow_threshold" by linarith
  from round_to_double_upto [OF this p] fin show ?thesis
    by (simp add: times_double_def is_finite_not_NaN)
qed

lemma upto_finite: "finite_upto B d \<Longrightarrow> is_finite d"
  by (simp add: finite_upto_def)

lemma bounded_finite: "bounded d \<Longrightarrow> is_finite d"
  by (simp add: bounded_def finite_upto_def)

lemma bounded_times_finite:
  assumes "bounded a" and "bounded b"
  shows "is_finite (a * b)"
proof -
  have "(2::real) ^ 300 * 2 ^ 300 < overflow_threshold"
    by (simp add: overflow_threshold_def)
  with assms show ?thesis
    unfolding bounded_def by (blast intro: times_upto upto_finite)
qed

lemma bounded_times_times_finite:
  assumes "bounded a" and "bounded b" and "bounded c"
  shows "is_finite (a * b * c)"
proof -
  have 1: "(2::real) ^ 300 * 2 ^ 300 < overflow_threshold"
    by (simp add: overflow_threshold_def)
  have 2: "(2 * ((2::real) ^ 300 * 2 ^ 300) + 1) * 2 ^ 300 < overflow_threshold"
    by (simp add: overflow_threshold_def)
  from assms(1,2) 1 have "finite_upto (2 * (2 ^ 300 * 2 ^ 300) + 1) (a * b)"
    unfolding bounded_def by (rule times_upto)
  from this assms(3) [unfolded bounded_def] 2 show ?thesis
    by (blast intro: times_upto upto_finite)
qed

lemma product_with_zero_factor:
  assumes "bounded a" and "bounded b" and "bounded c" and "bounded d"
    and "is_zero a \<or> is_zero b \<or> is_zero c \<or> is_zero d"
  shows "is_zero (a * b * c * d)"
proof -
  from assms(5) consider "is_zero a" | "is_zero b" | "is_zero c" | "is_zero d" by blast
  then show ?thesis
  proof cases
    case 1
    with assms show ?thesis
      by (intro times_zero_left bounded_finite)
  next
    case 2
    with assms show ?thesis
      by (intro times_zero_left times_zero_right bounded_finite)
  next
    case 3
    with assms show ?thesis
      by (intro times_zero_left times_zero_right bounded_times_finite bounded_finite)
  next
    case 4
    with assms show ?thesis
      by (intro times_zero_right bounded_times_times_finite)
  qed
qed


lemma invert_d_result:
  "snd (invert_d h M optresult) =
     (if strict_eq (determinant_d h M) (Finite 0) then Inl SingularMatrix else Inr M)"
  by (simp add: invert_d_def Let_def)

lemma invert_d_raise_keeps_heap:
  "snd (invert_d h M optresult) = Inl SingularMatrix \<Longrightarrow> fst (invert_d h M optresult) = h"
  by (simp add: invert_d_def Let_def split: if_splits)

lemma determinant_d_NaN:
  assumes "dcells h M ! 1 * dcells h M ! 7 * dcells h M ! 10 * dcells h M ! 12 = NaN"
  shows "determinant_d h M = NaN"
  unfolding determinant_d_def Let_def
  by (simp only: assms NaN_plus NaN_minus)

lemma determinant_d_zero_row:
  assumes len: "length (dcells h M) = 16"
    and b: "list_all bounded (dcells h M)"
    and r: "row < 4"
    and z: "is_zero (dcells h M ! row)" "is_zero (dcells h M ! (4 + row))"
      "is_zero (dcells h M ! (8 + row))" "is_zero (dcells h M ! (12 + row))"
  shows "is_zero (determinant_d h M)"
proof -
  from len obtain a0 a1 a2 a3 a4 a5 a6 a7 a8 a9 a10 a11 a12 a13 a14 a15
    where m: "dcells h M = [a0, a1, a2, a3, a4, a5, a6, a7, a8, a9, a10, a11, a12, a13, a14, a15]"
    by (rule list16)
  from b have bs: "bounded a0" "bounded a1" "bounded a2" "bounded a3" "bounded a4" "bounded a5"
    "bounded a6" "bounded a7" "bounded a8" "bounded a9" "bounded a10" "bounded a11"
    "bounded a12" "bounded a13" "bounded a14" "bounded a15"
    by (simp_all add: m)
  from r consider "row = 0" | "row = 1" | "row = 2" | "row = 3" by linarith
  then show ?thesis
  proof cases
    case 1
    with z have "is_zero a0" "is_zero a4" "is_zero a8" "is_zero a12" by (simp_all add: m)
    then show ?thesis
      by (simp add: determinant_d_def m plus_zero minus_zero product_with_zero_factor bs)
  next
    case 2
    with z have "is_zero a1" "is_zero a5" "is_zero a9" "is_zero a13" by (simp_all add: m)
    then show ?thesis
      by (simp add: determinant_d_def m plus_zero minus_zero product_with_zero_factor bs)
  next
    case 3
    with z have "is_zero a2" "is_zero a6" "is_zero a10" "is_zero a14" by (simp_all add: m)
    then show ?thesis
      by (simp add: determinant_d_def m plus_zero minus_zero product_with_zero_factor bs)
  next
    case 4
    with z have "is_zero a3" "is_zero a7" "is_zero a11" "is_zero a15" by (simp_all add: m)
    then show ?thesis
      by (simp add: determinant_d_def m plus_zero minus_zero product_with_zero_factor bs)
  qed
qed

section \<open>The claims\<close>

subsection \<open>C1: \<open>scale\<close> with a result instance\<close>

text \<open>
  C1. The claim: for every matrix \<open>M\<close>, factor \<open>f\<close> and distinct result instance \<open>R\<close>,
  \<open>M.scale(f, R)\<close> writes into \<open>R\<close> the 16 entries of \<open>M\<close> each multiplied by \<open>f\<close>.
  The code does not: it reads the entries it scales from \<open>result._val\<close>, never from
  \<open>this._val\<close>. With \<open>M\<close> holding 1 to 16 (reference 0), \<open>R\<close> the identity (reference 1)
  and \<open>f = 2\<close>, the call returns \<open>R\<close> and leaves \<open>M\<close> unchanged, but \<open>R\<close> then holds twice
  the identity, not the entries 2, 4, ..., 32 of \<open>M\<close> scaled.
\<close>

theorem scale_result_ignores_receiver:
  "snd (scale heap2 0 2 (Some 1)) = 1 \<and>
   cells (fst (scale heap2 0 2 (Some 1))) 1 = [2, 0, 0, 0, 0, 2, 0, 0, 0, 0, 2, 0, 0, 0, 0, 2] \<and>
   map (\<lambda>v. v * 2) (cells heap2 0) =
     [2, 4, 6, 8, 10, 12, 14, 16, 18, 20, 22, 24, 26, 28, 30, 32] \<and>
   cells (fst (scale heap2 0 2 (Some 1))) 0 = cells heap2 0"
  by (simp add: scale_def Let_def heap2_cells0 heap2_cells1)

text \<open>
  What \<open>scale\<close> does in general: the entries of the written-to instance (the result when
  one is given, else the receiver) are multiplied by the factor, every other instance is
  left as it was, and the written-to instance is returned.
\<close>

lemma scale_cells:
  assumes "length (cells h (case optresult of Some r \<Rightarrow> r | None \<Rightarrow> this)) = 16"
  shows "scale h this sc optresult =
           (let result = (case optresult of Some r \<Rightarrow> r | None \<Rightarrow> this)
            in (h\<lparr>cells := (cells h)(result := map (\<lambda>v. v * sc) (cells h result))\<rparr>, result))"
proof -
  from assms obtain a0 a1 a2 a3 a4 a5 a6 a7 a8 a9 a10 a11 a12 a13 a14 a15
    where "cells h (case optresult of Some r \<Rightarrow> r | None \<Rightarrow> this) =
      [a0, a1, a2, a3, a4, a5, a6, a7, a8, a9, a10, a11, a12, a13, a14, a15]"
    by (rule list16)
  then show ?thesis
    by (simp add: scale_def Let_def)
qed

subsection \<open>C2: serialisation round trip\<close>

text \<open>
  C2. For every matrix \<open>M\<close>, \<open>Matrix4.deserialise(M.serialise())\<close> is a new instance whose
  16-entry buffer equals the buffer of \<open>M\<close>, entry for entry; \<open>M\<close> itself is unchanged.
\<close>

theorem deserialise_serialise_roundtrip:
  assumes "live h M"
  shows "snd (deserialise_static h (serialise h M)) = nxt h \<and>
         cells (fst (deserialise_static h (serialise h M)))
               (snd (deserialise_static h (serialise h M))) = cells h M \<and>
         cells (fst (deserialise_static h (serialise h M))) M = cells h M"
proof -
  from assms have len: "length (cells h M) = 16" and neq: "M \<noteq> nxt h"
    by (simp_all add: live_def)
  have "deserialise_static h (serialise h M) =
          (h\<lparr>cells := (cells h)(nxt h := cells h M), nxt := Suc (nxt h)\<rparr>, nxt h)"
    by (simp add: deserialise_static_def new_Matrix4_eq deserialise_cells
        serialise_entries [OF len])
  with neq show ?thesis by simp
qed

theorem deserialise_serialise_roundtrip_witness:
  "live heap2 0 \<and>
   cells (fst (deserialise_static heap2 (serialise heap2 0)))
         (snd (deserialise_static heap2 (serialise heap2 0))) =
     [1, 2, 3, 4, 5, 6, 7, 8, 9, 10, 11, 12, 13, 14, 15, 16]"
  using deserialise_serialise_roundtrip [of heap2 0]
  by (auto simp add: live_def heap2_cells0 heap2_nxt)

subsection \<open>C3: when \<open>invert\<close> raises\<close>

text \<open>
  C3, as claimed: \<open>invert\<close> raises the \<open>SingularMatrix\<close> error if and only if the
  determinant is exactly zero, and in particular a matrix with an all-zero row has
  determinant 0, so that \<open>invert\<close> raises. The second part fails in double arithmetic when
  a partial product overflows. In the matrix below the third row is zero and every entry is
  finite, but \<open>m[1] * m[7]\<close> is \<open>2\<^sup>6\<^sup>0\<^sup>0 * 2\<^sup>6\<^sup>0\<^sup>0\<close>, which is Infinity; times
  \<open>m[10] = 0\<close> this is NaN, the determinant is NaN, \<open>NaN === 0\<close> is false, and \<open>invert\<close>
  returns without raising.
\<close>

theorem zero_row_overflow_does_not_raise:
  "live_d dheap_overflow 0 \<and>
   list_all is_finite (dcells dheap_overflow 0) \<and>
   is_zero (dcells dheap_overflow 0 ! 2) \<and> is_zero (dcells dheap_overflow 0 ! 6) \<and>
   is_zero (dcells dheap_overflow 0 ! 10) \<and> is_zero (dcells dheap_overflow 0 ! 14) \<and>
   dcells dheap_overflow 0 ! 1 * dcells dheap_overflow 0 ! 7 = PosInf \<and>
   determinant_d dheap_overflow 0 = NaN \<and>
   \<not> strict_eq (determinant_d dheap_overflow 0) (Finite 0) \<and>
   snd (invert_d dheap_overflow 0 None) = Inr 0 \<and>
   snd (invert_d dheap_overflow 0 None) \<noteq> Inl SingularMatrix"
proof -
  have p: "dcells dheap_overflow 0 ! 1 * dcells dheap_overflow 0 ! 7 = PosInf"
    by (simp add: dheap_overflow_def times_double_def round_to_double_def
        overflow_threshold_def signed_inf_def)
  then have "dcells dheap_overflow 0 ! 1 * dcells dheap_overflow 0 ! 7 *
      dcells dheap_overflow 0 ! 10 * dcells dheap_overflow 0 ! 12 = NaN"
    by (simp add: dheap_overflow_def times_double_def)
  then have d: "determinant_d dheap_overflow 0 = NaN"
    by (rule determinant_d_NaN)
  have "live_d dheap_overflow 0" "list_all is_finite (dcells dheap_overflow 0)"
    "is_zero (dcells dheap_overflow 0 ! 2)" "is_zero (dcells dheap_overflow 0 ! 6)"
    "is_zero (dcells dheap_overflow 0 ! 10)" "is_zero (dcells dheap_overflow 0 ! 14)"
    by (simp_all add: live_d_def dheap_overflow_def)
  with p d show ?thesis
    by (simp add: invert_d_result strict_eq_def)
qed

text \<open>
  C3, as it holds: \<open>invert\<close> (with or without a result instance) raises the
  \<open>SingularMatrix\<close> error if and only if the number that the getter \<open>determinant\<close>
  computes is zero (\<open>=== 0\<close>); and for a matrix with an all-zero row (the entries at
  indices \<open>row\<close>, \<open>4 + row\<close>, \<open>8 + row\<close> and \<open>12 + row\<close>) whose entries are all finite and of
  magnitude at most \<open>2\<^sup>3\<^sup>0\<^sup>0\<close>, that number is zero, so that \<open>invert\<close> raises.
\<close>

theorem invert_d_raises_iff_determinant_zero:
  assumes "live_d h M"
  shows "(snd (invert_d h M optresult) = Inl SingularMatrix \<longleftrightarrow>
            strict_eq (determinant_d h M) (Finite 0)) \<and>
         (row < 4 \<and> list_all bounded (dcells h M) \<and>
          is_zero (dcells h M ! row) \<and> is_zero (dcells h M ! (4 + row)) \<and>
          is_zero (dcells h M ! (8 + row)) \<and> is_zero (dcells h M ! (12 + row)) \<longrightarrow>
            strict_eq (determinant_d h M) (Finite 0) \<and>
            snd (invert_d h M optresult) = Inl SingularMatrix)"
proof -
  from assms have len: "length (dcells h M) = 16" by (simp add: live_d_def)
  have iff: "snd (invert_d h M optresult) = Inl SingularMatrix \<longleftrightarrow>
      strict_eq (determinant_d h M) (Finite 0)"
    by (simp add: invert_d_result)
  have "strict_eq (determinant_d h M) (Finite 0)"
    if "row < 4" "list_all bounded (dcells h M)"
      "is_zero (dcells h M ! row)" "is_zero (dcells h M ! (4 + row))"
      "is_zero (dcells h M ! (8 + row))" "is_zero (dcells h M ! (12 + row))"
    using determinant_d_zero_row [OF len that(2) that(1) that(3-6)]
    by (simp add: strict_eq_zero)
  with iff show ?thesis by blast
qed

theorem invert_d_raises_iff_determinant_zero_witness:
  "live_d dheap_zero_row 0 \<and> (2::nat) < 4 \<and> list_all bounded (dcells dheap_zero_row 0) \<and>
   is_zero (dcells dheap_zero_row 0 ! 2) \<and> is_zero (dcells dheap_zero_row 0 ! (4 + 2)) \<and>
   is_zero (dcells dheap_zero_row 0 ! (8 + 2)) \<and> is_zero (dcells dheap_zero_row 0 ! (12 + 2)) \<and>
   strict_eq (determinant_d dheap_zero_row 0) (Finite 0) \<and>
   snd (invert_d dheap_zero_row 0 None) = Inl SingularMatrix"
  using invert_d_raises_iff_determinant_zero [of dheap_zero_row 0 None 2]
  by (simp add: live_d_def dheap_zero_row_def bounded_def finite_upto_def)

text \<open>
  In double arithmetic, too, \<open>invert\<close> returns its receiver when it does not raise, and a
  raising \<open>invert\<close> leaves the heap as it was (lemmas \<open>invert_d_result\<close> and
  \<open>invert_d_raise_keeps_heap\<close>).
\<close>

subsection \<open>C4: \<open>multiply\<close> with the result aliased to an operand\<close>

text \<open>
  C4. For every matrix \<open>M\<close>, \<open>M.clone().multiply(M, M)\<close>, whose result instance is the
  argument itself, leaves in \<open>M\<close> the same 16 values that \<open>M.multiply(M, F)\<close> leaves in a
  fresh result instance \<open>F\<close>: the matrix product of \<open>M\<close> with itself. Each call returns its
  result instance.
\<close>

theorem multiply_result_aliasing_argument:
  assumes "live h M"
  shows "(case clone h M of
            (h1, Inl e) \<Rightarrow> False
          | (h1, Inr C) \<Rightarrow>
              (case new_Matrix4 h of
                 (h2, F) \<Rightarrow>
                   C \<noteq> M \<and> F \<noteq> M \<and>
                   snd (multiply h1 C M (Some M)) = M \<and>
                   snd (multiply h2 M M (Some F)) = F \<and>
                   cells (fst (multiply h1 C M (Some M))) M =
                     cells (fst (multiply h2 M M (Some F))) F \<and>
                   cells (fst (multiply h2 M M (Some F))) F =
                     matrix_product (cells h M) (cells h M)))"
proof -
  from assms have len: "length (cells h M) = 16" and neq: "M \<noteq> nxt h" "nxt h \<noteq> M"
    by (auto simp add: live_def)
  show ?thesis
    by (simp add: clone_eq [OF assms] new_Matrix4_eq multiply_def multiply_static_cells len neq)
qed

theorem multiply_result_aliasing_argument_witness:
  "live heap2 0 \<and>
   (case clone heap2 0 of
      (h1, Inl e) \<Rightarrow> False
    | (h1, Inr C) \<Rightarrow>
        (case new_Matrix4 heap2 of
           (h2, F) \<Rightarrow>
             cells (fst (multiply h1 C 0 (Some 0))) 0 =
               cells (fst (multiply h2 0 0 (Some F))) F \<and>
             cells (fst (multiply h2 0 0 (Some F))) F =
               [90, 100, 110, 120, 202, 228, 254, 280,
                314, 356, 398, 440, 426, 484, 542, 600]))"
proof -
  have l: "live heap2 0"
    by (simp add: live_def heap2_cells0 heap2_nxt)
  have p: "matrix_product (cells heap2 0) (cells heap2 0) =
      [90, 100, 110, 120, 202, 228, 254, 280, 314, 356, 398, 440, 426, 484, 542, 600]"
    by (simp add: heap2_cells0 matrix_product_entries)
  from multiply_result_aliasing_argument [OF l] l p show ?thesis
    by (simp add: clone_eq [OF l] new_Matrix4_eq)
qed

subsection \<open>C5: \<open>fromArray\<close>\<close>

text \<open>
  C5. For every input sequence, \<open>fromArray\<close> raises the \<open>InvalidArgument\<close> error when the
  sequence has fewer than 16 elements, and the heap (so the receiver) is then unchanged;
  when it has 16 or more elements, the receiver is returned and its buffer holds exactly
  the first 16 values, index \<open>i\<close> of the input at index \<open>i\<close> of the buffer.
\<close>

theorem fromArray_length_check_and_copy:
  assumes "live h M"
  shows "(length values < 16 \<longrightarrow> fromArray h M values = (h, Inl InvalidArgument)) \<and>
         (16 \<le> length values \<longrightarrow>
            snd (fromArray h M values) = Inr M \<and>
            cells (fst (fromArray h M values)) M = take 16 values \<and>
            (\<forall>i<16. cells (fst (fromArray h M values)) M ! i = values ! i))"
  using assms by (simp add: live_def fromArray_cells) (simp add: fromArray_def)

theorem fromArray_length_check_and_copy_witness:
  "live heap2 1 \<and> length [1, 2, 3 :: number] < 16 \<and>
   fromArray heap2 1 [1, 2, 3] = (heap2, Inl InvalidArgument) \<and>
   16 \<le> length [1, 2, 3, 4, 5, 6, 7, 8, 9, 10, 11, 12, 13, 14, 15, 16, 17 :: number] \<and>
   cells (fst (fromArray heap2 1 [1, 2, 3, 4, 5, 6, 7, 8, 9, 10, 11, 12, 13, 14, 15, 16, 17])) 1 =
     [1, 2, 3, 4, 5, 6, 7, 8, 9, 10, 11, 12, 13, 14, 15, 16] \<and>
   cells (fst (fromArray heap2 1 [1, 2, 3, 4, 5, 6, 7, 8, 9, 10, 11, 12, 13, 14, 15, 16, 17])) 1 ! 15
     = 16"
  using fromArray_length_check_and_copy [of heap2 1 "[1, 2, 3]"]
    fromArray_length_check_and_copy [of heap2 1
      "[1, 2, 3, 4, 5, 6, 7, 8, 9, 10, 11, 12, 13, 14, 15, 16, 17]"]
  by (simp add: live_def heap2_cells1 heap2_nxt)

subsection \<open>C6: \<open>setToProjection\<close>\<close>

text \<open>
  C6. For every \<open>near\<close>, \<open>far\<close>, \<open>fov\<close> and \<open>aspect\<close> with \<open>tan(fov * \<pi> / 360)\<close> and
  \<open>near - far\<close> nonzero, \<open>setToProjection\<close> sets the buffer so that, with
  \<open>fd = 1 / tan(fov * \<pi> / 360)\<close>, \<open>m[0] = fd / aspect\<close>, \<open>m[5] = fd\<close>,
  \<open>m[10] = (far + near) / (near - far)\<close>, \<open>m[11] = -1\<close>,
  \<open>m[14] = (2 * far * near) / (near - far)\<close>, \<open>m[15] = 0\<close> and every other entry is zero;
  so \<open>m[0] = m[5]\<close> when \<open>aspect = 1\<close>. The numbers are reals here.
\<close>

theorem setToProjection_entries:
  assumes "live h M" and "tan (fov * pi / 360) \<noteq> 0" and "near - far \<noteq> 0"
  shows "snd (setToProjection h M near far fov aspect) = M \<and>
         cells (fst (setToProjection h M near far fov aspect)) M =
           [1 / tan (fov * pi / 360) / aspect, 0, 0, 0,
            0, 1 / tan (fov * pi / 360), 0, 0,
            0, 0, (far + near) / (near - far), - 1,
            0, 0, (2 * far * near) / (near - far), 0] \<and>
         (aspect = 1 \<longrightarrow>
            cells (fst (setToProjection h M near far fov aspect)) M ! 0 =
            cells (fst (setToProjection h M near far fov aspect)) M ! 5)"
proof -
  from assms(1) have "length (cells h M) = 16" by (simp add: live_def)
  then obtain a0 a1 a2 a3 a4 a5 a6 a7 a8 a9 a10 a11 a12 a13 a14 a15
    where m: "cells h M = [a0, a1, a2, a3, a4, a5, a6, a7, a8, a9, a10, a11, a12, a13, a14, a15]"
    by (rule list16)
  have angle: "fov * (pi / 180) / 2 = fov * pi / 360" by simp
  show ?thesis
    by (simp add: setToProjection_def Let_def m angle)
qed

theorem setToProjection_entries_witness:
  "live heap2 0 \<and> tan (90 * pi / 360) \<noteq> 0 \<and> (1::real) - 3 \<noteq> 0 \<and>
   cells (fst (setToProjection heap2 0 1 3 90 1)) 0 =
     [1, 0, 0, 0, 0, 1, 0, 0, 0, 0, - 2, - 1, 0, 0, - 3, 0] \<and>
   cells (fst (setToProjection heap2 0 1 3 90 1)) 0 ! 0 =
   cells (fst (setToProjection heap2 0 1 3 90 1)) 0 ! 5"
proof -
  have t: "tan (90 * pi / 360) = 1"
    using tan_45 by simp
  have l: "live heap2 0"
    by (simp add: live_def heap2_cells0 heap2_nxt)
  from setToProjection_entries [of heap2 0 90 1 3 1] l t show ?thesis
    by simp
qed

subsection \<open>C7: composing and decomposing position, rotation and scale\<close>

text \<open>
  C7. The claim: for every position \<open>p\<close>, unit quaternion \<open>q\<close> and positive scale \<open>s\<close>,
  \<open>decomposePosRotSca\<close> after \<open>composePosRotSca(p, q, s)\<close> recovers \<open>p\<close>, \<open>s\<close>, and \<open>q\<close> up
  to sign. The code does not recover the rotation: \<open>decomposePosRotSca\<close> reads the basis
  transposed (\<open>xy = val[1]\<close> is the entry that \<open>composePosRotSca\<close> wrote as row 1 of column
  0), so it returns the conjugate quaternion. At \<open>p = (1, 2, 3)\<close>,
  \<open>q = (1/2, 1/2, 1/2, 1/2)\<close> and \<open>s = (1, 2, 4)\<close>, position and scale come back, and the
  rotation comes back as \<open>(-1/2, -1/2, -1/2, 1/2)\<close>, which is neither \<open>q\<close> nor \<open>-q\<close>.
\<close>

theorem decompose_after_compose_conjugates:
  "decomposePosRotSca
     (fst (composePosRotSca heap2 1
        \<lparr>vx = 1, vy = 2, vz = 3\<rparr>
        \<lparr>qx = 1 / 2, qy = 1 / 2, qz = 1 / 2, qw = 1 / 2\<rparr>
        \<lparr>vx = 1, vy = 2, vz = 4\<rparr>)) 1 =
   (\<lparr>vx = 1, vy = 2, vz = 3\<rparr>,
    \<lparr>qx = - (1 / 2), qy = - (1 / 2), qz = - (1 / 2), qw = 1 / 2\<rparr>,
    \<lparr>vx = 1, vy = 2, vz = 4\<rparr>)"
  by (simp add: composePosRotSca_def decomposePosRotSca_def Vector3_len_def Let_def
      heap2_cells1 sqrt_4 sqrt_16)

text \<open>
  What the round trip gives in general, in exact arithmetic: for every unit quaternion and
  componentwise-positive scale, position and scale are recovered, and the rotation comes
  back as the conjugate of the quaternion that was composed, up to sign.
\<close>

lemma decompose_after_compose:
  fixes x y z w px py pz sx sy sz :: real
  assumes l: "live h M"
    and unit: "x * x + y * y + z * z + w * w = 1"
    and pos: "0 < sx" "0 < sy" "0 < sz"
  defines "h' \<equiv> fst (composePosRotSca h M \<lparr>vx = px, vy = py, vz = pz\<rparr>
                        \<lparr>qx = x, qy = y, qz = z, qw = w\<rparr> \<lparr>vx = sx, vy = sy, vz = sz\<rparr>)"
  shows "fst (decomposePosRotSca h' M) = \<lparr>vx = px, vy = py, vz = pz\<rparr> \<and>
         snd (snd (decomposePosRotSca h' M)) = \<lparr>vx = sx, vy = sy, vz = sz\<rparr> \<and>
         (fst (snd (decomposePosRotSca h' M)) = \<lparr>qx = - x, qy = - y, qz = - z, qw = w\<rparr> \<or>
          fst (snd (decomposePosRotSca h' M)) = \<lparr>qx = x, qy = y, qz = z, qw = - w\<rparr>)"
proof -
  define A where "A = 1 - (y * (y * 2) + z * (z * 2))"
  define B where "B = x * (y * 2) + w * (z * 2)"
  define C where "C = x * (z * 2) - w * (y * 2)"
  define D where "D = x * (y * 2) - w * (z * 2)"
  define E where "E = 1 - (x * (x * 2) + z * (z * 2))"
  define F where "F = y * (z * 2) + w * (x * 2)"
  define G where "G = x * (z * 2) + w * (y * 2)"
  define H where "H = y * (z * 2) - w * (x * 2)"
  define I where "I = 1 - (x * (x * 2) + y * (y * 2))"
  note defs = A_def B_def C_def D_def E_def F_def G_def H_def I_def
  from l have len: "length (cells h M) = 16" by (simp add: live_def)
  have c: "cells h' M = [sx * A, sx * B, sx * C, 0, sy * D, sy * E, sy * F, 0,
                         sz * G, sz * H, sz * I, 0, px, py, pz, 1]"
    unfolding h'_def by (simp add: composePosRotSca_cells [OF len] defs)
  have "A * A + B * B + C * C - 1 = (x * x + y * y + z * z + w * w - 1) * (4 * (y * y + z * z))"
    by (simp add: defs algebra_simps)
  with unit have uA: "A * A + B * B + C * C = 1" by simp
  have "D * D + E * E + F * F - 1 = (x * x + y * y + z * z + w * w - 1) * (4 * (x * x + z * z))"
    by (simp add: defs algebra_simps)
  with unit have uD: "D * D + E * E + F * F = 1" by simp
  have "G * G + H * H + I * I - 1 = (x * x + y * y + z * z + w * w - 1) * (4 * (x * x + y * y))"
    by (simp add: defs algebra_simps)
  with unit have uG: "G * G + H * H + I * I = 1" by simp
  note dec = decompose_scaled_basis [OF c pos uA uD uG]
  have "A + E + I + 1 - (2 * w) * (2 * w) = 4 * (1 - (x * x + y * y + z * z + w * w))"
    by (simp add: defs algebra_simps)
  with unit have t1: "A + E + I + 1 = (2 * w) * (2 * w)"
    by simp
  have t2: "1 + A - E - I = (2 * x) * (2 * x)"
    by (simp add: defs algebra_simps)
  have t3: "1 + E - A - I = (2 * y) * (2 * y)"
    by (simp add: defs algebra_simps)
  have t4: "1 + I - A - E = (2 * z) * (2 * z)"
    by (simp add: defs algebra_simps)
  have s1: "sqrt (A + E + I + 1) = 2 * \<bar>w\<bar>"
    unfolding t1 by (rule sqrt_double_square)
  have s2: "sqrt (1 + A - E - I) = 2 * \<bar>x\<bar>"
    unfolding t2 by (rule sqrt_double_square)
  have s3: "sqrt (1 + E - A - I) = 2 * \<bar>y\<bar>"
    unfolding t3 by (rule sqrt_double_square)
  have s4: "sqrt (1 + I - A - E) = 2 * \<bar>z\<bar>"
    unfolding t4 by (rule sqrt_double_square)
  have d: "H - F = - (4 * w * x)" "C - G = - (4 * w * y)" "D - B = - (4 * w * z)"
    "D + B = 4 * x * y" "C + G = 4 * x * z" "H + F = 4 * y * z"
    by (simp_all add: defs)
  have ae: "A - E = 2 * (x * x - y * y)" and ai: "A - I = 2 * (x * x - z * z)"
    and ei: "E - I = 2 * (y * y - z * z)"
    by (simp_all add: defs algebra_simps)
  have ps: "fst (decomposePosRotSca h' M) = \<lparr>vx = px, vy = py, vz = pz\<rparr>"
    "snd (snd (decomposePosRotSca h' M)) = \<lparr>vx = sx, vy = sy, vz = sz\<rparr>"
    by (simp_all add: dec)
  have "fst (snd (decomposePosRotSca h' M)) = \<lparr>qx = - x, qy = - y, qz = - z, qw = w\<rparr> \<or>
        fst (snd (decomposePosRotSca h' M)) = \<lparr>qx = x, qy = y, qz = z, qw = - w\<rparr>"
  proof (cases "A + E + I \<ge> 0")
    case True
    with t1 have nz: "w \<noteq> 0" by auto
    from True have r: "fst (snd (decomposePosRotSca h' M)) =
        \<lparr>qx = - (4 * w * x) * (0.5 / (2 * \<bar>w\<bar>)), qy = - (4 * w * y) * (0.5 / (2 * \<bar>w\<bar>)),
         qz = - (4 * w * z) * (0.5 / (2 * \<bar>w\<bar>)), qw = 0.5 * (2 * \<bar>w\<bar>)\<rparr>"
      by (simp add: dec s1 d)
    from nz show ?thesis
      by (cases "0 < w") (simp_all add: r field_simps)
  next
    case t: False
    show ?thesis
    proof (cases "A > E \<and> A > I")
      case True
      have nz: "x \<noteq> 0"
      proof
        assume "x = 0"
        with ae have "A - E = - 2 * (y * y)" by simp
        with True zero_le_square [of y] show False by linarith
      qed
      from t True have r: "fst (snd (decomposePosRotSca h' M)) =
          \<lparr>qx = 2 * \<bar>x\<bar> * 0.5, qy = 4 * x * y * (0.5 / (2 * \<bar>x\<bar>)),
           qz = 4 * x * z * (0.5 / (2 * \<bar>x\<bar>)), qw = - (4 * w * x) * (0.5 / (2 * \<bar>x\<bar>))\<rparr>"
        by (simp add: dec s2 d)
      from nz show ?thesis
        by (cases "0 < x") (simp_all add: r field_simps)
    next
      case a: False
      show ?thesis
      proof (cases "E > I")
        case True
        have nz: "y \<noteq> 0"
        proof
          assume "y = 0"
          with ei have "E - I = - 2 * (z * z)" by simp
          with True zero_le_square [of z] show False by linarith
        qed
        from t a True have r: "fst (snd (decomposePosRotSca h' M)) =
            \<lparr>qx = 4 * x * y * (0.5 / (2 * \<bar>y\<bar>)), qy = 2 * \<bar>y\<bar> * 0.5,
             qz = 4 * y * z * (0.5 / (2 * \<bar>y\<bar>)), qw = - (4 * w * y) * (0.5 / (2 * \<bar>y\<bar>))\<rparr>"
          by (simp add: dec s3 d)
        from nz show ?thesis
          by (cases "0 < y") (simp_all add: r field_simps)
      next
        case e: False
        have nz: "z \<noteq> 0"
        proof
          assume z: "z = 0"
          from e ei z have "y * y \<le> 0" by simp
          then have y: "y = 0" by (auto simp add: mult_le_0_iff)
          from a ae ai z y have "x * x \<le> 0" by auto
          then have x: "x = 0" by (auto simp add: mult_le_0_iff)
          from t x y z show False by (simp add: defs)
        qed
        from t a e have r: "fst (snd (decomposePosRotSca h' M)) =
            \<lparr>qx = 4 * x * z * (0.5 / (2 * \<bar>z\<bar>)), qy = 4 * y * z * (0.5 / (2 * \<bar>z\<bar>)),
             qz = 2 * \<bar>z\<bar> * 0.5, qw = - (4 * w * z) * (0.5 / (2 * \<bar>z\<bar>))\<rparr>"
          by (auto simp add: dec s4 d)
        from nz show ?thesis
          by (cases "0 < z") (simp_all add: r field_simps)
      qed
    qed
  qed
  with ps show ?thesis by simp
qed

subsection \<open>C8: the instance returned by the operations with an optional result\<close>

text \<open>
  C8. The claim: \<open>scale\<close>, \<open>multiply\<close>, \<open>preMultiply\<close> and \<open>invert\<close> return the instance
  that was mutated, the supplied result when one is given. \<open>invert\<close> does not: it ends
  with \<open>return this\<close>. With the receiver at reference 0 (determinant 64) and the result
  instance at reference 1, \<open>invert\<close> writes the inverse into reference 1, leaves reference 0
  as it was, and returns reference 0.
\<close>

theorem invert_returns_receiver_not_result:
  "snd (invert heap_affine 0 (Some 1)) = Inr 0 \<and>
   cells (fst (invert heap_affine 0 (Some 1))) 0 = cells heap_affine 0 \<and>
   cells heap_affine 1 = [1, 0, 0, 0, 0, 1, 0, 0, 0, 0, 1, 0, 0, 0, 0, 1] \<and>
   cells (fst (invert heap_affine 0 (Some 1))) 1 =
     [1 / 2, 0, 0, 0, 0, 1 / 4, 0, 0, 0, 0, 1 / 8, 0, - (1 / 2), - (1 / 2), - (3 / 8), 1]"
  by (simp add: invert_def Let_def determinant_heap_affine heap_affine_cells0
      heap_affine_cells1)

text \<open>
  What each of the four operations returns: \<open>scale\<close>, \<open>multiply\<close> and \<open>preMultiply\<close>
  return the instance they write, \<open>invert\<close> returns its receiver whenever it returns.
\<close>

lemma scale_returns_result:
  "snd (scale h M f optresult) = (case optresult of Some r \<Rightarrow> r | None \<Rightarrow> M)"
  by (simp add: scale_def Let_def)

lemma multiply_returns_result:
  "snd (multiply h M N optresult) = (case optresult of Some r \<Rightarrow> r | None \<Rightarrow> M)"
  by (simp add: multiply_def multiply_static_def Let_def)

lemma preMultiply_returns_result:
  "snd (preMultiply h M N optresult) = (case optresult of Some r \<Rightarrow> r | None \<Rightarrow> M)"
  by (simp add: preMultiply_def multiply_static_def Let_def)

lemma invert_returns_receiver:
  "snd (invert h M optresult) = (if determinant h M = 0 then Inl SingularMatrix else Inr M)"
  by (simp add: invert_def Let_def)

subsection \<open>C9: multiplying by the identity\<close>

text \<open>
  C9. For every matrix \<open>M\<close> and a freshly constructed matrix \<open>I\<close> (also after \<open>I.identity()\<close>),
  \<open>I.multiply(M)\<close> leaves in \<open>I\<close> the values of \<open>M\<close>, and \<open>M.multiply(I)\<close> leaves in \<open>M\<close>
  the values \<open>M\<close> had, entry for entry; each call returns its receiver.
\<close>

theorem multiply_identity:
  assumes "live h M"
  shows "(case new_Matrix4 h of
            (h1, I) \<Rightarrow>
              snd (multiply h1 I M None) = I \<and>
              cells (fst (multiply h1 I M None)) I = cells h M \<and>
              snd (multiply h1 M I None) = M \<and>
              cells (fst (multiply h1 M I None)) M = cells h M \<and>
              (case identity h1 I of
                 (h2, I2) \<Rightarrow>
                   I2 = I \<and>
                   snd (multiply h2 I2 M None) = I2 \<and>
                   cells (fst (multiply h2 I2 M None)) I2 = cells h M \<and>
                   snd (multiply h2 M I2 None) = M \<and>
                   cells (fst (multiply h2 M I2 None)) M = cells h M))"
proof -
  from assms have len: "length (cells h M) = 16" and neq: "M \<noteq> nxt h" "nxt h \<noteq> M"
    by (auto simp add: live_def)
  show ?thesis
    by (simp add: new_Matrix4_eq identity_def set_values_cells multiply_def
        multiply_static_cells matrix_product_identity_left matrix_product_identity_right
        len neq)
qed

theorem multiply_identity_witness:
  "live heap2 0 \<and>
   (case new_Matrix4 heap2 of
      (h1, I) \<Rightarrow>
        cells (fst (multiply h1 I 0 None)) I =
          [1, 2, 3, 4, 5, 6, 7, 8, 9, 10, 11, 12, 13, 14, 15, 16] \<and>
        cells (fst (multiply h1 0 I None)) 0 =
          [1, 2, 3, 4, 5, 6, 7, 8, 9, 10, 11, 12, 13, 14, 15, 16])"
proof -
  have l: "live heap2 0"
    by (simp add: live_def heap2_cells0 heap2_nxt)
  from multiply_identity [OF l] l show ?thesis
    by (simp add: new_Matrix4_eq heap2_cells0 split: prod.splits)
qed

subsection \<open>C10: a failing \<open>invert\<close> writes nothing\<close>

text \<open>
  C10. When \<open>invert\<close> raises the \<open>SingularMatrix\<close> error, the determinant is zero and the
  heap is the heap before the call: no buffer entry of the receiver or of a supplied
  result instance has been written.
\<close>

theorem invert_singular_leaves_heap:
  assumes "live h M" and "snd (invert h M optresult) = Inl SingularMatrix"
  shows "determinant h M = 0 \<and> fst (invert h M optresult) = h"
  using assms(2) by (simp add: invert_def Let_def split: if_splits)

theorem invert_singular_leaves_heap_witness:
  "live heap2 0 \<and> snd (invert heap2 0 (Some 1)) = Inl SingularMatrix \<and>
   fst (invert heap2 0 (Some 1)) = heap2"
proof -
  have l: "live heap2 0"
    by (simp add: live_def heap2_cells0 heap2_nxt)
  have "snd (invert heap2 0 (Some 1)) = Inl SingularMatrix"
    by (simp add: invert_def determinant_heap2)
  with invert_singular_leaves_heap [of heap2 0 "Some 1"] l show ?thesis by simp
qed

end
